theory Spec2Isabelle
  imports Complex_Main
begin

section \<open>Package sizes (src/sizes/sizes.go)\<close>

text \<open>
  A \<^verbatim>\<open>[]byte\<close> and a Go \<^verbatim>\<open>string\<close> are both sequences of bytes; both are modelled
  as \<^typ>\<open>string\<close>, whose characters are bytes.

  \<^verbatim>\<open>Millimeter\<close>, \<^verbatim>\<open>Inch\<close> and \<^verbatim>\<open>Point\<close> are \<^verbatim>\<open>float64\<close> in the source. Their
  magnitudes are modelled as \<^typ>\<open>real\<close>: the arithmetic below is the exact arithmetic
  that the float64 operations round. NaN, the infinities and a product that underflows to
  zero (a \<^verbatim>\<open>Point\<close> of the smallest subnormal magnitude, in millimeters) have no
  counterpart.
  The interface \<^verbatim>\<open>Length\<close> has these three implementations; a nil interface value is
  \<^term>\<open>None\<close> of \<^typ>\<open>'a option\<close>.
\<close>

type_synonym bytes = string

datatype Length = Millimeter real | Inch real | Point real

text \<open>The conversion constants, lines 37 to 46.\<close>

definition mmToInch :: real where "mmToInch = 1 / 25.4"
definition inchToMm :: real where "inchToMm = 25.4"
definition pointToMm :: real where "pointToMm = 0.3528"
definition inchToPoint :: real where "inchToPoint = 1.0 / 64"
definition mmToPoint :: real where "mmToPoint = 1.0 / pointToMm"
definition pointToInch :: real where "pointToInch = 0.0139"

text \<open>
  The methods \<^verbatim>\<open>Millimeters()\<close>, \<^verbatim>\<open>Inches()\<close> and \<^verbatim>\<open>Points()\<close> of the three
  implementations, lines 83 to 107. Each returns a value of the target unit.
\<close>

fun Millimeters :: "Length \<Rightarrow> real" where
  "Millimeters (Millimeter m) = m"
| "Millimeters (Inch i) = i * inchToMm"
| "Millimeters (Point p) = p * pointToMm"

fun Inches :: "Length \<Rightarrow> real" where
  "Inches (Millimeter m) = m * mmToInch"
| "Inches (Inch i) = i"
| "Inches (Point p) = p * pointToInch"

fun Points :: "Length \<Rightarrow> real" where
  "Points (Millimeter m) = m * mmToPoint"
| "Points (Inch i) = i * inchToPoint"
| "Points (Point p) = p"

text \<open>\<^verbatim>\<open>Orientation\<close> is a bool: \<^verbatim>\<open>Portrait = false\<close>, \<^verbatim>\<open>Landscape = true\<close>.\<close>

type_synonym Orientation = bool

definition Portrait :: Orientation where "Portrait = False"
definition Landscape :: Orientation where "Landscape = True"

text \<open>
  \<^verbatim>\<open>PageSize\<close> is a Go \<^verbatim>\<open>int\<close>; the enumeration of lines 49 to 74 numbers its constants
  from \<^verbatim>\<open>Undefined = 0\<close> to \<^verbatim>\<open>Letter = 23\<close>.
\<close>

type_synonym PageSize = int

definition Undefined :: PageSize where "Undefined = 0"
definition A0 :: PageSize where "A0 = 1"
definition A1 :: PageSize where "A1 = 2"
definition A2 :: PageSize where "A2 = 3"
definition A3 :: PageSize where "A3 = 4"
definition A4 :: PageSize where "A4 = 5"
definition A5 :: PageSize where "A5 = 6"
definition A6 :: PageSize where "A6 = 7"
definition A7 :: PageSize where "A7 = 8"
definition A8 :: PageSize where "A8 = 9"
definition A9 :: PageSize where "A9 = 10"
definition A10 :: PageSize where "A10 = 11"
definition B0 :: PageSize where "B0 = 12"
definition B1 :: PageSize where "B1 = 13"
definition B2 :: PageSize where "B2 = 14"
definition B3 :: PageSize where "B3 = 15"
definition B4 :: PageSize where "B4 = 16"
definition B5 :: PageSize where "B5 = 17"
definition B6 :: PageSize where "B6 = 18"
definition B7 :: PageSize where "B7 = 19"
definition B8 :: PageSize where "B8 = 20"
definition B9 :: PageSize where "B9 = 21"
definition B10 :: PageSize where "B10 = 22"
definition Letter :: PageSize where "Letter = 23"

text \<open>The four package variables of lines 221 to 226; \<^verbatim>\<open>pageSizeMap\<close> starts empty.\<close>

definition pageSizeNames :: string where
  "pageSizeNames = ''UndefinedA0A1A2A3A4A5A6A7A8A9A10B0B1B2B3B4B5B6B7B8B9B10Letter''"

definition pageSizeIdx :: "nat list" where
  "pageSizeIdx = [0, 9, 11, 13, 15, 17, 19, 21, 23, 25, 27, 29, 32, 34, 36, 38, 40, 42,
                  44, 46, 48, 50, 52, 55, 61]"

definition pageSizes :: "PageSize list" where
  "pageSizes = [0, 1, 2, 3, 4, 5, 6, 7, 8, 9, 10, 11, 12, 13, 14, 15, 16, 17, 18, 19, 20,
                21, 22, 23]"

text \<open>
  The slice expression \<^verbatim>\<open>s[lo:hi]\<close>. Go panics unless \<^verbatim>\<open>lo <= hi <= len(s)\<close>; every
  use below is within these bounds, which \<open>pageSizeIdx\<close> guarantees.
\<close>

definition slice :: "string \<Rightarrow> nat \<Rightarrow> nat \<Rightarrow> string" where
  "slice s lo hi = take (hi - lo) (drop lo s)"

text \<open>
  \<^verbatim>\<open>init\<close>, lines 228 to 233: for every index \<open>i\<close> of \<open>pageSizes\<close> the name cut out of
  \<open>pageSizeNames\<close> is mapped to \<open>PageSize(i)\<close>. \<open>pageSizeMap\<close> is the map after \<^verbatim>\<open>init\<close>.
\<close>

definition init_step :: "nat \<Rightarrow> (string \<rightharpoonup> PageSize) \<Rightarrow> (string \<rightharpoonup> PageSize)" where
  "init_step i m =
     (let name = slice pageSizeNames (pageSizeIdx ! i) (pageSizeIdx ! (i + 1))
      in m(name \<mapsto> int i))"

definition pageSizeMap :: "string \<rightharpoonup> PageSize" where
  "pageSizeMap = fold init_step [0 ..< length pageSizes] Map.empty"

text \<open>
  Decimal printing of an integer, as \<^verbatim>\<open>strconv.Itoa\<close> and the verb \<^verbatim>\<open>%d\<close> do it.
\<close>

fun natDigits :: "nat \<Rightarrow> string" where
  "natDigits n =
     (if n < 10 then [''0123456789'' ! n]
      else natDigits (n div 10) @ [''0123456789'' ! (n mod 10)])"

definition Itoa :: "int \<Rightarrow> string" where
  "Itoa k = (if k < 0 then CHR ''-'' # natDigits (nat (- k)) else natDigits (nat k))"

text \<open>\<^verbatim>\<open>PageSize.String\<close>, lines 235 to 240.\<close>

definition PageSize_String :: "PageSize \<Rightarrow> string" where
  "PageSize_String p =
     (if p < 0 \<or> p \<ge> int (length pageSizeIdx - 1) then ''PageSize('' @ Itoa p @ '')''
      else slice pageSizeNames (pageSizeIdx ! nat p) (pageSizeIdx ! nat (p + 1)))"

text \<open>
  Errors are values of one datatype. The package-level sentinel errors of the client are
  constructors of their own; \<open>ErrorString\<close> is an error made by \<^verbatim>\<open>errors.New\<close> or by
  \<^verbatim>\<open>fmt.Errorf\<close> without \<^verbatim>\<open>%w\<close>, carrying its message; \<open>WrapError msg e\<close> is an error
  made by \<^verbatim>\<open>fmt.Errorf\<close> with \<^verbatim>\<open>%w\<close>: \<open>msg\<close> is the whole formatted message and \<open>e\<close>
  the wrapped error that \<^verbatim>\<open>errors.Is\<close> finds.
\<close>

datatype error =
    ErrMissingData
  | ErrContentType
  | ErrContentTypeDeclared
  | ErrNotFound
  | ErrBadRequest
  | ErrNotImplemented
  | ErrInternalError
  | ErrBadGateway
  | ErrUnauthorized
  | ErrTimedOut
  | ErrorString string
  | WrapError string error

text \<open>The method \<^verbatim>\<open>Error()\<close>: the message of an error.\<close>

primrec Error :: "error \<Rightarrow> string" where
  "Error ErrMissingData = ''missing input data''"
| "Error ErrContentType = ''invalid content type''"
| "Error ErrContentTypeDeclared = ''content type is already declared''"
| "Error ErrNotFound = ''not found''"
| "Error ErrBadRequest = ''bad request''"
| "Error ErrNotImplemented = ''not implemented''"
| "Error ErrInternalError = ''internal server error''"
| "Error ErrBadGateway = ''bad gateway''"
| "Error ErrUnauthorized = ''unauthorized''"
| "Error ErrTimedOut = ''request timed out''"
| "Error (ErrorString s) = s"
| "Error (WrapError s e) = s"

text \<open>\<^verbatim>\<open>PageSizeString\<close>, lines 269 to 274: the lookup in \<open>pageSizeMap\<close>.\<close>

definition PageSizeString :: "string \<Rightarrow> error + PageSize" where
  "PageSizeString s =
     (case pageSizeMap s of
        Some val \<Rightarrow> Inr val
      | None \<Rightarrow> Inl (ErrorString (s @ '' does not belong to PageSize values'')))"

text \<open>\<^verbatim>\<open>PageSize.IsAPageSize\<close>, lines 328 to 335: a linear search in \<open>pageSizes\<close>.\<close>

fun IsAPageSize_loop :: "PageSize \<Rightarrow> PageSize list \<Rightarrow> bool" where
  "IsAPageSize_loop p [] = False"
| "IsAPageSize_loop p (v # vs) = (if p = v then True else IsAPageSize_loop p vs)"

definition IsAPageSize :: "PageSize \<Rightarrow> bool" where
  "IsAPageSize p = IsAPageSize_loop p pageSizes"

section \<open>Package selector (src/unnamed/part_001, from line 225)\<close>

text \<open>\<^verbatim>\<open>ByType\<close> is a Go \<^verbatim>\<open>uint\<close>, with the constants of lines 229 to 237.\<close>

type_synonym ByType = nat

definition ByUndefined :: ByType where "ByUndefined = 0"
definition ByID :: ByType where "ByID = 1"
definition ByQueryAll :: ByType where "ByQueryAll = 2"
definition ByQuery :: ByType where "ByQuery = 3"
definition ByNodeID :: ByType where "ByNodeID = 4"
definition ByJSPath :: ByType where "ByJSPath = 5"
definition BySearch :: ByType where "BySearch = 6"

text \<open>\<^verbatim>\<open>ByType.Validate\<close>, lines 243 to 248. A nil error is \<^term>\<open>None\<close>.\<close>

definition ByType_Validate :: "ByType \<Rightarrow> error option" where
  "ByType_Validate b =
     (if b \<ge> ByID \<and> b \<le> BySearch then None
      else Some (ErrorString ''invalid by selector''))"

section \<open>Package client (src/unnamed/part_000, lines 1 to 607)\<close>

text \<open>
  \<^verbatim>\<open>time.Duration\<close> is an \<^verbatim>\<open>int64\<close> count of nanoseconds. The client compares and
  copies durations and multiplies only the constants below, so they are modelled as
  \<^typ>\<open>int\<close>.
\<close>

type_synonym Duration = int

definition Millisecond :: Duration where "Millisecond = 1000000"
definition Second :: Duration where "Second = 1000 * Millisecond"
definition Minute :: Duration where "Minute = 60 * Second"

subsection \<open>Content, page parameters and render parameters\<close>

text \<open>
  The interface \<^verbatim>\<open>content.Content\<close> (lines 620 to 624) offers three methods without
  arguments; a value of it is modelled by what the three return.
\<close>

record Content =
  ContentType :: string
  Method :: string
  Data :: bytes

text \<open>The four implementations of the package content, lines 698 to 791.\<close>

definition zipDirectory :: "bytes \<Rightarrow> Content" where
  "zipDirectory buffer =
     \<lparr>ContentType = ''application/zip'', Method = ''dir'', Data = buffer\<rparr>"

definition htmlFile :: "bytes \<Rightarrow> Content" where
  "htmlFile buffer = \<lparr>ContentType = ''text/html'', Method = ''html'', Data = buffer\<rparr>"

definition StringContent :: "string \<Rightarrow> Content" where
  "StringContent html = \<lparr>ContentType = ''text/html'', Method = ''html'', Data = html\<rparr>"

definition webURL :: "string \<Rightarrow> Content" where
  "webURL path = \<lparr>ContentType = ''text/plain'', Method = ''web'', Data = path\<rparr>"

record BySelector =
  Selector :: string
  By :: ByType

text \<open>\<^verbatim>\<open>BySelector.Validate\<close>, lines 414 to 422.\<close>

definition BySelector_Validate :: "BySelector \<Rightarrow> error option" where
  "BySelector_Validate b =
     (if Selector b = '''' then Some (ErrorString ''provided empty selector'')
      else case ByType_Validate (By b) of
             Some isValid \<Rightarrow> Some isValid
           | None \<Rightarrow> None)"

text \<open>
  \<^verbatim>\<open>PageParameters\<close>, lines 139 to 164. \<^verbatim>\<open>PageSize\<close> is a pointer, nil when unset.
\<close>

record PageParameters =
  PaperWidth :: "Length option"
  PaperHeight :: "Length option"
  PageSize :: "PageSize option"
  Orientation :: Orientation
  MarginTop :: "Length option"
  MarginBottom :: "Length option"
  MarginLeft :: "Length option"
  MarginRight :: "Length option"

record RenderParameters =
  WaitTime :: Duration
  WaitReady :: "BySelector list"
  WaitVisible :: "BySelector list"

text \<open>\<^verbatim>\<open>DefaultPageParameters\<close>, line 113, and the zero value of \<^verbatim>\<open>RenderParameters\<close>.\<close>

definition DefaultPageParameters :: PageParameters where
  "DefaultPageParameters =
     \<lparr>PaperWidth = None, PaperHeight = None, PageSize = None, Orientation = Portrait,
      MarginTop = None, MarginBottom = None, MarginLeft = None, MarginRight = None\<rparr>"

definition zero_RenderParameters :: RenderParameters where
  "zero_RenderParameters = \<lparr>WaitTime = 0, WaitReady = [], WaitVisible = []\<rparr>"

text \<open>
  \<^verbatim>\<open>PageParameters.Validate\<close>, lines 333 to 368. The six dimensions are tested in the
  order of the source, each with a message of its own, the page size last. The test
  \<^verbatim>\<open>x != nil\<close> followed by \<^verbatim>\<open>x.Millimeters() < 0\<close> is \<open>negative\<close>.
\<close>

definition negative :: "Length option \<Rightarrow> bool" where
  "negative l = (case l of None \<Rightarrow> False | Some v \<Rightarrow> Millimeters v < 0)"

definition PageParameters_Validate :: "PageParameters \<Rightarrow> error option" where
  "PageParameters_Validate p =
     (if negative (PaperWidth p) then Some (ErrorString ''negative value for PaperWidth'')
      else if negative (PaperHeight p) then Some (ErrorString ''negative value for PaperHeight'')
      else if negative (MarginTop p) then Some (ErrorString ''negative value for MarginTop'')
      else if negative (MarginBottom p) then Some (ErrorString ''negative value for MarginBottom'')
      else if negative (MarginLeft p) then Some (ErrorString ''negative value for MarginLeft'')
      else if negative (MarginRight p) then Some (ErrorString ''negative value for MarginRight'')
      else if (case PageSize p of None \<Rightarrow> False | Some ps \<Rightarrow> \<not> IsAPageSize ps)
        then Some (ErrorString ''invalid page size'')
      else None)"

text \<open>
  \<^verbatim>\<open>RenderParameters.Validate\<close>, lines 262 to 272. The loop runs over \<^verbatim>\<open>WaitReady\<close>;
  the source has no loop over \<^verbatim>\<open>WaitVisible\<close>.
\<close>

fun WaitReady_loop :: "BySelector list \<Rightarrow> error option" where
  "WaitReady_loop [] = None"
| "WaitReady_loop (de # rest) =
     (case BySelector_Validate de of
        Some cgf \<Rightarrow>
          Some (WrapError (''one of wait ready selector is not valid: '' @ Error cgf) cgf)
      | None \<Rightarrow> WaitReady_loop rest)"

definition RenderParameters_Validate :: "RenderParameters \<Rightarrow> error option" where
  "RenderParameters_Validate rp =
     (if WaitTime rp > Minute * 3
        then Some (ErrorString ''too long minimum load time. Maximum is 3 minutes'')
      else WaitReady_loop (WaitReady rp))"

subsection \<open>Query and QueryBuilder\<close>

text \<open>\<^verbatim>\<open>Query\<close>, lines 441 to 449, and its zero value.\<close>

record Query =
  Content :: bytes
  ContentType :: string
  URL :: string
  Method :: string
  PageParameters :: PageParameters
  RenderParameters :: RenderParameters
  TimeoutDuration :: Duration

definition zero_PageParameters :: PageParameters where
  "zero_PageParameters =
     \<lparr>PaperWidth = None, PaperHeight = None, PageSize = None, Orientation = False,
      MarginTop = None, MarginBottom = None, MarginLeft = None, MarginRight = None\<rparr>"

definition zero_Query :: Query where
  "zero_Query =
     \<lparr>Query.Content = [], Query.ContentType = [], URL = [], Query.Method = [],
      PageParameters = zero_PageParameters, RenderParameters = zero_RenderParameters,
      TimeoutDuration = 0\<rparr>"

text \<open>
  \<^verbatim>\<open>Query.Validate\<close>, lines 539 to 563: the switch over the method, then the page
  parameters, then the render parameters.
\<close>

definition Query_Validate :: "Query \<Rightarrow> error option" where
  "Query_Validate q =
     (let contentErr =
        (if Query.Method q = ''web'' then
           (if URL q = '''' then Some ErrMissingData else None)
         else if Query.Method q = ''dir'' \<or> Query.Method q = ''html'' then
           (if length (Query.Content q) = 0 then Some ErrMissingData
            else if Query.ContentType q = '''' then Some ErrContentType
            else None)
         else Some (ErrorString (''undefined content query method: '' @ Query.Method q)))
      in case contentErr of
           Some err \<Rightarrow> Some err
         | None \<Rightarrow>
             (case PageParameters_Validate (PageParameters q) of
                Some err \<Rightarrow> Some err
              | None \<Rightarrow>
                  (case RenderParameters_Validate (RenderParameters q) of
                     Some err \<Rightarrow> Some err
                   | None \<Rightarrow> None)))"

text \<open>
  \<^verbatim>\<open>QueryBuilder\<close>, lines 458 to 461: the draft query and the recorded error. Every
  method of the builder returns its receiver, so a method is a function from the
  builder before the call to the builder after it.
\<close>

record QueryBuilder =
  query :: Query
  err :: "error option"

definition BuildHTMLQuery :: QueryBuilder where
  "BuildHTMLQuery = \<lparr>query = zero_Query, err = None\<rparr>"

text \<open>\<^verbatim>\<open>QueryBuilder.SetContent\<close>, lines 286 to 315.\<close>

definition QueryBuilder_SetContent :: "Content \<Rightarrow> QueryBuilder \<Rightarrow> QueryBuilder" where
  "QueryBuilder_SetContent content q =
     (if err q \<noteq> None then q
      else if Content.Method content = ''dir'' \<or> Content.Method content = ''html'' then
        (if Query.ContentType (query q) \<noteq> '''' then q\<lparr>err := Some ErrContentTypeDeclared\<rparr>
         else if Content.ContentType content = '''' then
           q\<lparr>err := Some (WrapError (''empty custom content type '' @ Error ErrContentType)
                               ErrContentType)\<rparr>
         else q\<lparr>query := (query q)\<lparr>Query.Content := Data content,
                                    Query.ContentType := Content.ContentType content,
                                    Query.Method := Content.Method content\<rparr>\<rparr>)
      else if Content.Method content = ''web'' then
        (if Query.ContentType (query q) \<noteq> '''' then q\<lparr>err := Some ErrContentTypeDeclared\<rparr>
         else q\<lparr>query := (query q)\<lparr>URL := Data content,
                                    Query.ContentType := Content.ContentType content,
                                    Query.Method := Content.Method content\<rparr>\<rparr>)
      else q\<lparr>err := Some (ErrorString (''invalid content method: '' @ Content.Method content))\<rparr>)"

text \<open>
  The other setters: lines 63, 104, 133, 167, 212, 237, 250, 256, 324, 402, 425, 452,
  566 and 572. None of them reads or writes \<^verbatim>\<open>q.err\<close>.
\<close>

definition QueryBuilder_Orientation :: "Orientation \<Rightarrow> QueryBuilder \<Rightarrow> QueryBuilder" where
  "QueryBuilder_Orientation orientation q =
     q\<lparr>query := (query q)\<lparr>PageParameters :=
          (PageParameters (query q))\<lparr>Orientation := orientation\<rparr>\<rparr>\<rparr>"

definition QueryBuilder_Portrait :: "QueryBuilder \<Rightarrow> QueryBuilder" where
  "QueryBuilder_Portrait q =
     q\<lparr>query := (query q)\<lparr>PageParameters :=
          (PageParameters (query q))\<lparr>Orientation := Portrait\<rparr>\<rparr>\<rparr>"

definition QueryBuilder_Landscape :: "QueryBuilder \<Rightarrow> QueryBuilder" where
  "QueryBuilder_Landscape q =
     q\<lparr>query := (query q)\<lparr>PageParameters :=
          (PageParameters (query q))\<lparr>Orientation := Landscape\<rparr>\<rparr>\<rparr>"

definition QueryBuilder_TimeoutDuration :: "Duration \<Rightarrow> QueryBuilder \<Rightarrow> QueryBuilder" where
  "QueryBuilder_TimeoutDuration d qb = qb\<lparr>query := (query qb)\<lparr>TimeoutDuration := d\<rparr>\<rparr>"

definition QueryBuilder_PaperWidth :: "Length option \<Rightarrow> QueryBuilder \<Rightarrow> QueryBuilder" where
  "QueryBuilder_PaperWidth paperWidth q =
     q\<lparr>query := (query q)\<lparr>PageParameters :=
          (PageParameters (query q))\<lparr>PaperWidth := paperWidth\<rparr>\<rparr>\<rparr>"

definition QueryBuilder_PaperHeight :: "Length option \<Rightarrow> QueryBuilder \<Rightarrow> QueryBuilder" where
  "QueryBuilder_PaperHeight paperHeight q =
     q\<lparr>query := (query q)\<lparr>PageParameters :=
          (PageParameters (query q))\<lparr>PaperHeight := paperHeight\<rparr>\<rparr>\<rparr>"

definition QueryBuilder_PageSize :: "PageSize \<Rightarrow> QueryBuilder \<Rightarrow> QueryBuilder" where
  "QueryBuilder_PageSize pageSize q =
     (if pageSize \<noteq> Undefined then
        q\<lparr>query := (query q)\<lparr>PageParameters :=
             (PageParameters (query q))\<lparr>PageSize := Some pageSize\<rparr>\<rparr>\<rparr>
      else q)"

definition QueryBuilder_MarginTop :: "Length option \<Rightarrow> QueryBuilder \<Rightarrow> QueryBuilder" where
  "QueryBuilder_MarginTop marginTop q =
     q\<lparr>query := (query q)\<lparr>PageParameters :=
          (PageParameters (query q))\<lparr>MarginTop := marginTop\<rparr>\<rparr>\<rparr>"

definition QueryBuilder_MarginBottom :: "Length option \<Rightarrow> QueryBuilder \<Rightarrow> QueryBuilder" where
  "QueryBuilder_MarginBottom marginBottom q =
     q\<lparr>query := (query q)\<lparr>PageParameters :=
          (PageParameters (query q))\<lparr>MarginBottom := marginBottom\<rparr>\<rparr>\<rparr>"

definition QueryBuilder_MarginLeft :: "Length option \<Rightarrow> QueryBuilder \<Rightarrow> QueryBuilder" where
  "QueryBuilder_MarginLeft marginLeft q =
     q\<lparr>query := (query q)\<lparr>PageParameters :=
          (PageParameters (query q))\<lparr>MarginLeft := marginLeft\<rparr>\<rparr>\<rparr>"

definition QueryBuilder_MarginRight :: "Length option \<Rightarrow> QueryBuilder \<Rightarrow> QueryBuilder" where
  "QueryBuilder_MarginRight marginRight q =
     q\<lparr>query := (query q)\<lparr>PageParameters :=
          (PageParameters (query q))\<lparr>MarginRight := marginRight\<rparr>\<rparr>\<rparr>"

definition QueryBuilder_WaitTime :: "Duration \<Rightarrow> QueryBuilder \<Rightarrow> QueryBuilder" where
  "QueryBuilder_WaitTime d q =
     q\<lparr>query := (query q)\<lparr>RenderParameters :=
          (RenderParameters (query q))\<lparr>WaitTime := d\<rparr>\<rparr>\<rparr>"

definition QueryBuilder_WaitReady :: "string \<Rightarrow> ByType \<Rightarrow> QueryBuilder \<Rightarrow> QueryBuilder" where
  "QueryBuilder_WaitReady selector byType q =
     q\<lparr>query := (query q)\<lparr>RenderParameters :=
          (RenderParameters (query q))\<lparr>WaitReady :=
             WaitReady (RenderParameters (query q)) @ [\<lparr>Selector = selector, By = byType\<rparr>]\<rparr>\<rparr>\<rparr>"

definition QueryBuilder_WaitVisible :: "string \<Rightarrow> ByType \<Rightarrow> QueryBuilder \<Rightarrow> QueryBuilder" where
  "QueryBuilder_WaitVisible selector byType q =
     q\<lparr>query := (query q)\<lparr>RenderParameters :=
          (RenderParameters (query q))\<lparr>WaitVisible :=
             WaitVisible (RenderParameters (query q)) @ [\<lparr>Selector = selector, By = byType\<rparr>]\<rparr>\<rparr>\<rparr>"

text \<open>
  \<^verbatim>\<open>QueryBuilder.Err\<close> (line 321), \<^verbatim>\<open>QueryBuilder.Validate\<close> (lines 223 to 228) and
  \<^verbatim>\<open>QueryBuilder.Query\<close> (lines 95 to 100).
\<close>

definition QueryBuilder_Err :: "QueryBuilder \<Rightarrow> error option" where
  "QueryBuilder_Err q = err q"

definition QueryBuilder_Validate :: "QueryBuilder \<Rightarrow> error option" where
  "QueryBuilder_Validate q =
     (if err q \<noteq> None then err q else Query_Validate (query q))"

definition QueryBuilder_Query :: "QueryBuilder \<Rightarrow> error + Query" where
  "QueryBuilder_Query q =
     (case QueryBuilder_Validate q of
        Some e \<Rightarrow> Inl e
      | None \<Rightarrow> Inr (query q))"

subsection \<open>Options and the client\<close>

text \<open>\<^verbatim>\<open>Options\<close>, lines 28 to 34. \<^verbatim>\<open>Port\<close> is a Go \<^verbatim>\<open>int\<close>.\<close>

record Options =
  HTTPS :: bool
  Hostname :: string
  Port :: int
  DefaultTimeout :: Duration
  Prefix :: string

text \<open>
  An \<^verbatim>\<open>Option\<close> (line 60) is a function that changes the options it is given;
  \<^verbatim>\<open>WithDefaultTimeout\<close> is at lines 89 to 91.
\<close>

definition WithDefaultTimeout :: "Duration \<Rightarrow> Options \<Rightarrow> Options" where
  "WithDefaultTimeout option db = db\<lparr>DefaultTimeout := option\<rparr>"

definition WithPort :: "int \<Rightarrow> Options \<Rightarrow> Options" where
  "WithPort option ee = ee\<lparr>Port := option\<rparr>"

definition WithHostname :: "string \<Rightarrow> Options \<Rightarrow> Options" where
  "WithHostname option cad = cad\<lparr>Hostname := option\<rparr>"

text \<open>\<^verbatim>\<open>Options.Addr\<close>, lines 116 to 130.\<close>

definition Options_Addr :: "Options \<Rightarrow> string" where
  "Options_Addr opts =
     ''http'' @ (if HTTPS opts then ''s'' else '''') @ ''://'' @ Hostname opts @ '':''
       @ Itoa (Port opts) @ (if Prefix opts \<noteq> '''' then Prefix opts else '''')"

text \<open>
  What the client reads of \<^verbatim>\<open>http.Client\<close> and \<^verbatim>\<open>http.Transport\<close> of the standard
  library: the two timeouts of the transport that \<^verbatim>\<open>New\<close> sets, and the timeout of the
  client. \<^verbatim>\<open>Client\<close> is at lines 200 to 203; its field \<^verbatim>\<open>Client\<close> is a pointer to
  an \<^verbatim>\<open>http.Client\<close>, modelled by the value it points to.
\<close>

record http_Transport =
  DialTimeout :: Duration
  TLSHandshakeTimeout :: Duration

record http_Client =
  Transport :: http_Transport
  Timeout :: Duration

record Client =
  Options :: Options
  Client :: http_Client

text \<open>
  \<^verbatim>\<open>New\<close>, lines 69 to 83. The call of the logger at line 81 writes a line of text and
  is left out.
\<close>

definition New :: "Options \<Rightarrow> Client" where
  "New opts =
     (let opts = opts\<lparr>DefaultTimeout := Second * 30\<rparr>;
          opts = (if Port opts \<le> 0 then opts\<lparr>Port := 8080\<rparr> else opts);
          opts = (if Hostname opts = '''' then opts\<lparr>Hostname := ''127.0.0.1''\<rparr> else opts);
          transport = \<lparr>DialTimeout = 5 * Second, TLSHandshakeTimeout = 5 * Second\<rparr>
      in \<lparr>Options = opts, Client = \<lparr>Transport = transport, Timeout = DefaultTimeout opts\<rparr>\<rparr>)"

subsection \<open>The conversion call\<close>

text \<open>
  The request body \<^verbatim>\<open>generatePDFRequestV1\<close>, lines 274 to 283; the two parameter
  structs are embedded in it.
\<close>

record generatePDFRequestV1 =
  Content :: bytes
  ContentType :: string
  ContentURL :: string
  Method :: string
  ExpiresAt :: int
  TimeoutDuration :: int
  PageParameters :: PageParameters
  RenderParameters :: RenderParameters

text \<open>
  What the client uses of \<^verbatim>\<open>http.Request\<close> and \<^verbatim>\<open>http.Response\<close>. A header maps a
  canonical key to its first value, and \<^verbatim>\<open>Header.Get\<close> returns the empty string for a
  key that is absent. A body is a stream: it is modelled by what \<^verbatim>\<open>io.ReadAll\<close>
  returns on it, the bytes read and the error that ended the reading, if any.
\<close>

type_synonym Header = "string \<rightharpoonup> string"

definition Header_Get :: "Header \<Rightarrow> string \<Rightarrow> string" where
  "Header_Get h key = (case h key of None \<Rightarrow> '''' | Some v \<Rightarrow> v)"

definition Header_Set :: "Header \<Rightarrow> string \<Rightarrow> string \<Rightarrow> Header" where
  "Header_Set h key v = h(key \<mapsto> v)"

type_synonym Reader = "bytes \<times> error option"

definition io_ReadAll :: "Reader \<Rightarrow> bytes \<times> error option" where
  "io_ReadAll r = r"

record Request =
  Method :: string
  URL :: string
  Header :: Header
  Body :: bytes

record Response =
  StatusCode :: int
  Header :: Header
  Body :: Reader

text \<open>\<^verbatim>\<open>PDFResponse\<close>, lines 231 to 234.\<close>

record PDFResponse =
  ID :: string
  Data :: bytes

text \<open>
  The functions of the standard library that the conversion call runs, and the server
  behind \<^verbatim>\<open>http.Client.Do\<close>, are parameters of the model:
  \<^item> \<open>json_Encode\<close>: \<^verbatim>\<open>json.NewEncoder(buf).Encode\<close>, the encoded body or an error;
  \<^item> \<open>http_NewRequest\<close>: \<^verbatim>\<open>http.NewRequest\<close> of a method, a URL and a body;
  \<^item> \<open>http_Do\<close>: \<^verbatim>\<open>http.Client.Do\<close>, the exchange made by an \<^verbatim>\<open>http.Client\<close>,
    given by value, timeout included;
  \<^item> \<open>gzip_NewReader\<close>: \<^verbatim>\<open>gzip.NewReader\<close>, which fails on a bad gzip header;
  \<^item> \<open>flate_NewReader\<close>: \<^verbatim>\<open>flate.NewReader\<close>, which cannot fail.
  Contexts carry cancellation and deadlines of the caller; they are left out.
\<close>

record env =
  json_Encode :: "generatePDFRequestV1 \<Rightarrow> error + bytes"
  http_NewRequest :: "string \<Rightarrow> string \<Rightarrow> bytes \<Rightarrow> error + Request"
  http_Do :: "http_Client \<Rightarrow> Request \<Rightarrow> error + Response"
  gzip_NewReader :: "Reader \<Rightarrow> error + Reader"
  flate_NewReader :: "Reader \<Rightarrow> Reader"

text \<open>\<^verbatim>\<open>Client.getGenerateRequest\<close>, lines 369 to 399.\<close>

definition Client_getGenerateRequest :: "env \<Rightarrow> Client \<Rightarrow> Query \<Rightarrow> error + Request" where
  "Client_getGenerateRequest E cli q =
     (let reqData =
            \<lparr>generatePDFRequestV1.Content = [], generatePDFRequestV1.ContentType = [],
             ContentURL = [], generatePDFRequestV1.Method = Query.Method q, ExpiresAt = 0,
             generatePDFRequestV1.TimeoutDuration = Query.TimeoutDuration q,
             generatePDFRequestV1.PageParameters = Query.PageParameters q,
             generatePDFRequestV1.RenderParameters = Query.RenderParameters q\<rparr>;
          reqData =
            (if Query.Method q = ''web'' then reqData\<lparr>ContentURL := Query.URL q\<rparr>
             else if Query.Method q = ''dir'' \<or> Query.Method q = ''html'' then
               reqData\<lparr>generatePDFRequestV1.ContentType := Query.ContentType q,
                       generatePDFRequestV1.Content := Query.Content q\<rparr>
             else reqData)
      in case json_Encode E reqData of
           Inl e \<Rightarrow> Inl (ErrorString (''encoding request failed: '' @ Error e))
         | Inr buf \<Rightarrow>
             (let url = Options_Addr (Options cli) @ ''/v1/pdf''
              in case http_NewRequest E ''POST'' url buf of
                   Inl e \<Rightarrow> Inl e
                 | Inr req \<Rightarrow>
                     Inr (req\<lparr>Request.Header :=
                            Header_Set
                              (Header_Set (Request.Header req)
                                 ''Content-Type'' ''application/json'')
                              ''Accept-Encoding'' ''deflate, gzip;q=1.0, *;q=0.5''\<rparr>)))"

text \<open>
  The status codes of \<^verbatim>\<open>net/http\<close> that \<^verbatim>\<open>ConvertHTML\<close> names, and the switch over
  the status code, lines 489 to 505.
\<close>

definition StatusCreated :: int where "StatusCreated = 201"
definition StatusBadRequest :: int where "StatusBadRequest = 400"
definition StatusUnauthorized :: int where "StatusUnauthorized = 401"
definition StatusNotFound :: int where "StatusNotFound = 404"
definition StatusRequestTimeout :: int where "StatusRequestTimeout = 408"
definition StatusNotImplemented :: int where "StatusNotImplemented = 501"

definition ConvertHTML_httpErr :: "int \<Rightarrow> error option" where
  "ConvertHTML_httpErr status =
     (if status = StatusNotFound then Some ErrNotFound
      else if status = StatusBadRequest then Some ErrBadRequest
      else if status = StatusNotImplemented then Some ErrNotImplemented
      else if status = StatusUnauthorized then Some ErrUnauthorized
      else if status = StatusRequestTimeout then Some ErrTimedOut
      else if status = StatusCreated then None
      else Some ErrInternalError)"

text \<open>The switch over the header \<^verbatim>\<open>Content-Encoding\<close>, lines 507 to 520.\<close>

definition ConvertHTML_reader :: "env \<Rightarrow> Response \<Rightarrow> error + Reader" where
  "ConvertHTML_reader E resp =
     (let encoding = Header_Get (Response.Header resp) ''Content-Encoding''
      in if encoding = ''gzip'' then
           (case gzip_NewReader E (Response.Body resp) of
              Inl e \<Rightarrow> Inl e
            | Inr reader \<Rightarrow> Inr reader)
         else if encoding = ''deflate'' then Inr (flate_NewReader E (Response.Body resp))
         else if encoding = '''' then Inr (Response.Body resp)
         else Inl (ErrorString (''unsupported Content-Encoding: '' @ encoding @ '' header'')))"

text \<open>
  The state that a call can touch: the client behind the receiver \<^verbatim>\<open>cli\<close>, and the
  exchanges made so far. An exchange is recorded with the \<^verbatim>\<open>http.Client\<close> value whose
  method \<^verbatim>\<open>Do\<close> ran it, so that the timeout in force for it can be read off.
\<close>

record world =
  client :: Client
  sent :: "(http_Client \<times> Request) list"

text \<open>
  \<^verbatim>\<open>Client.ConvertHTML\<close>, lines 465 to 536. Line 478 copies the \<^verbatim>\<open>http.Client\<close>
  that \<^verbatim>\<open>cli.Client\<close> points to into the local variable \<^verbatim>\<open>httpClient\<close>; line 480
  assigns to the copy. The calls of the logger are left out.
\<close>

definition Client_ConvertHTML :: "env \<Rightarrow> Query \<Rightarrow> world \<Rightarrow> (error + PDFResponse) \<times> world" where
  "Client_ConvertHTML E q w =
     (case Query_Validate q of
        Some e \<Rightarrow> (Inl e, w)
      | None \<Rightarrow>
     (case Client_getGenerateRequest E (client w) q of
        Inl e \<Rightarrow> (Inl e, w)
      | Inr req \<Rightarrow>
     (let httpClient = Client (client w);
          httpClient =
            (if Query.TimeoutDuration q \<noteq> 0
             then httpClient\<lparr>Timeout := Query.TimeoutDuration q\<rparr> else httpClient);
          w = w\<lparr>sent := sent w @ [(httpClient, req)]\<rparr>
      in case http_Do E httpClient req of
           Inl e \<Rightarrow> (Inl e, w)
         | Inr resp \<Rightarrow>
     (let httpErr = ConvertHTML_httpErr (StatusCode resp)
      in case ConvertHTML_reader E resp of
           Inl e \<Rightarrow> (Inl e, w)
         | Inr reader \<Rightarrow>
     (case io_ReadAll reader of (data, readErr) \<Rightarrow>
        (case (readErr, httpErr) of
           (Some re, None) \<Rightarrow> (Inl (ErrorString (''UniHTML server error '' @ Error re)), w)
         | (_, Some he) \<Rightarrow> (Inl (WrapError (data @ '' '' @ Error he) he), w)
         | (None, None) \<Rightarrow>
             (let jobID = Header_Get (Response.Header resp) ''X-Job-ID''
              in (Inr \<lparr>ID = jobID, Data = data\<rparr>, w))))))))"

section \<open>Page sizes and their names\<close>

lemma PageSize_String_names:
  "map PageSize_String pageSizes =
     [''Undefined'', ''A0'', ''A1'', ''A2'', ''A3'', ''A4'', ''A5'', ''A6'', ''A7'', ''A8'', ''A9'',
      ''A10'', ''B0'', ''B1'', ''B2'', ''B3'', ''B4'', ''B5'', ''B6'', ''B7'', ''B8'', ''B9'', ''B10'',
      ''Letter'']"
  by (simp add: PageSize_String_def pageSizes_def pageSizeIdx_def pageSizeNames_def slice_def)

lemma pageSizeMap_eq:
  "pageSizeMap =
     [''Undefined'' \<mapsto> 0, ''A0'' \<mapsto> 1, ''A1'' \<mapsto> 2, ''A2'' \<mapsto> 3, ''A3'' \<mapsto> 4, ''A4'' \<mapsto> 5,
      ''A5'' \<mapsto> 6, ''A6'' \<mapsto> 7, ''A7'' \<mapsto> 8, ''A8'' \<mapsto> 9, ''A9'' \<mapsto> 10, ''A10'' \<mapsto> 11,
      ''B0'' \<mapsto> 12, ''B1'' \<mapsto> 13, ''B2'' \<mapsto> 14, ''B3'' \<mapsto> 15, ''B4'' \<mapsto> 16, ''B5'' \<mapsto> 17,
      ''B6'' \<mapsto> 18, ''B7'' \<mapsto> 19, ''B8'' \<mapsto> 20, ''B9'' \<mapsto> 21, ''B10'' \<mapsto> 22, ''Letter'' \<mapsto> 23]"
  by (simp add: pageSizeMap_def pageSizes_def upt_rec init_step_def pageSizeIdx_def
      pageSizeNames_def slice_def)

lemma pageSizes_enum:
  "pageSizes = [Undefined, A0, A1, A2, A3, A4, A5, A6, A7, A8, A9, A10,
                B0, B1, B2, B3, B4, B5, B6, B7, B8, B9, B10, Letter]"
  by (simp add: pageSizes_def Undefined_def A0_def A1_def A2_def A3_def A4_def A5_def A6_def
      A7_def A8_def A9_def A10_def B0_def B1_def B2_def B3_def B4_def B5_def B6_def B7_def
      B8_def B9_def B10_def Letter_def)

lemma roundtrip_list:
  "map (\<lambda>p. PageSizeString (PageSize_String p)) pageSizes = map Inr pageSizes"
proof -
  have "map (\<lambda>p. PageSizeString (PageSize_String p)) pageSizes
        = map PageSizeString (map PageSize_String pageSizes)"
    by simp
  also have "\<dots> = map Inr pageSizes"
    unfolding PageSize_String_names
    by (simp add: PageSizeString_def pageSizeMap_eq pageSizes_def)
  finally show ?thesis .
qed

lemma unknown_name:
  assumes "s \<notin> set (map PageSize_String pageSizes)"
  shows "pageSizeMap s = None"
  using assms unfolding PageSize_String_names pageSizeMap_eq by simp

text \<open>
  Claim C9. For every enumerated page size \<open>p\<close> (the members of \<open>pageSizes\<close>, which are
  \<open>Undefined\<close>, \<open>A0\<close> to \<open>A10\<close>, \<open>B0\<close> to \<open>B10\<close> and \<open>Letter\<close>), looking up the name
  that \<open>PageSize_String p\<close> produces returns \<open>p\<close>; and \<open>PageSizeString\<close> returns an error
  for every string that is not one of these names.
\<close>

theorem PageSize_roundtrip:
  "(\<forall>p \<in> set pageSizes. PageSizeString (PageSize_String p) = Inr p) \<and>
   (\<forall>s. s \<notin> PageSize_String ` set pageSizes \<longrightarrow>
        PageSizeString s = Inl (ErrorString (s @ '' does not belong to PageSize values'')))"
proof (intro conjI ballI allI impI)
  fix p assume "p \<in> set pageSizes"
  then obtain i where i: "i < length pageSizes" "pageSizes ! i = p"
    by (auto simp: in_set_conv_nth)
  have "map (\<lambda>p. PageSizeString (PageSize_String p)) pageSizes ! i = map Inr pageSizes ! i"
    by (simp only: roundtrip_list)
  with i show "PageSizeString (PageSize_String p) = Inr p" by simp
next
  fix s assume "s \<notin> PageSize_String ` set pageSizes"
  then have "pageSizeMap s = None" using unknown_name by simp
  then show "PageSizeString s = Inl (ErrorString (s @ '' does not belong to PageSize values''))"
    by (simp add: PageSizeString_def)
qed

text \<open>The round trip at \<open>A4\<close>, and the lookup of the unknown name \<open>bogus\<close>.\<close>

theorem PageSize_roundtrip_witness:
  "A4 \<in> set pageSizes \<and> PageSizeString (PageSize_String A4) = Inr A4 \<and>
   ''bogus'' \<notin> PageSize_String ` set pageSizes \<and>
   PageSizeString ''bogus'' = Inl (ErrorString ''bogus does not belong to PageSize values'')"
proof -
  have a: "A4 \<in> set pageSizes" by (simp add: pageSizes_def A4_def)
  have b: "''bogus'' \<notin> PageSize_String ` set pageSizes"
    using PageSize_String_names by (simp flip: set_map)
  from a b PageSize_roundtrip show ?thesis by auto
qed

section \<open>Unit conversions\<close>

lemma mm_inch_mm: "Millimeters (Inch (Inches (Millimeter x))) = x"
  by (simp add: mmToInch_def inchToMm_def)

lemma mm_point_mm: "Millimeters (Point (Points (Millimeter x))) = x"
  by (simp add: mmToPoint_def pointToMm_def)

lemma inch_mm_inch: "Inches (Millimeter (Millimeters (Inch x))) = x"
  by (simp add: mmToInch_def inchToMm_def)

lemma point_mm_point: "Points (Millimeter (Millimeters (Point x))) = x"
  by (simp add: mmToPoint_def pointToMm_def)

lemma inch_point_inch: "Inches (Point (Points (Inch x))) = x * (139 / 640000)"
  by (simp add: inchToPoint_def pointToInch_def)

lemma inch_points_two_ways:
  "Points (Inch 1) = 1 / 64 \<and> Points (Millimeter (Millimeters (Inch 1))) = 31750 / 441"
  by (simp add: inchToPoint_def inchToMm_def mmToPoint_def pointToMm_def)

text \<open>
  Claim C7. Converting a length to another unit and back should give the length again.
  In exact arithmetic this holds between millimeters and inches and between millimeters
  and points (the four lemmas above), since \<open>mmToInch\<close> is \<open>1 / inchToMm\<close> and
  \<open>mmToPoint\<close> is \<open>1 / pointToMm\<close>. It fails between inches and points: \<open>inchToPoint\<close>
  is \<open>1 / 64\<close> and \<open>pointToInch\<close> is \<open>0.0139\<close>, whose product is not \<open>1\<close>, so one inch
  becomes \<open>1 / 64\<close> of a point and comes back as \<open>139 / 640000\<close> of an inch. Both
  multiplications are exact in float64 at this input (a multiplication by a power of
  two), so that rounding does not account for the difference.
\<close>

theorem inch_point_roundtrip_fails:
  "Points (Inch 1) = 1 / 64 \<and> Inches (Point (Points (Inch 1))) = 139 / 640000 \<and>
   Inches (Point (Points (Inch 1))) \<noteq> 1 \<and> inchToPoint * pointToInch \<noteq> 1"
  by (simp add: inchToPoint_def pointToInch_def)

section \<open>Render parameters\<close>

text \<open>
  Claim C5. Validation of the render parameters should fail when a wait condition of
  either list has an empty selector or a lookup strategy out of range. With an empty
  selector in \<open>WaitVisible\<close>, which \<open>BySelector_Validate\<close> rejects, the validation of the
  render parameters succeeds: only \<open>WaitReady\<close> is looped over. The lemmas after the
  theorem state what the validation does check.
\<close>

theorem WaitVisible_not_validated:
  "BySelector_Validate \<lparr>Selector = '''', By = ByUndefined\<rparr>
     = Some (ErrorString ''provided empty selector'') \<and>
   RenderParameters_Validate
     \<lparr>WaitTime = 0, WaitReady = [],
      WaitVisible = [\<lparr>Selector = '''', By = ByUndefined\<rparr>]\<rparr> = None"
  by (simp add: BySelector_Validate_def RenderParameters_Validate_def Minute_def Second_def
      Millisecond_def)

lemma RenderParameters_Validate_ignores_WaitVisible:
  "RenderParameters_Validate (rp\<lparr>WaitVisible := vs\<rparr>) = RenderParameters_Validate rp"
  by (simp add: RenderParameters_Validate_def)

lemma WaitReady_loop_None:
  "WaitReady_loop bs = None \<longleftrightarrow> (\<forall>b \<in> set bs. BySelector_Validate b = None)"
  by (induction bs) (auto split: option.splits)

lemma BySelector_Validate_None:
  "BySelector_Validate b = None \<longleftrightarrow> Selector b \<noteq> '''' \<and> ByID \<le> By b \<and> By b \<le> BySearch"
  by (simp add: BySelector_Validate_def ByType_Validate_def split: option.splits)

lemma RenderParameters_Validate_None:
  "RenderParameters_Validate rp = None \<longleftrightarrow>
     WaitTime rp \<le> 3 * Minute \<and>
     (\<forall>b \<in> set (WaitReady rp). Selector b \<noteq> '''' \<and> ByID \<le> By b \<and> By b \<le> BySearch)"
  by (auto simp: RenderParameters_Validate_def WaitReady_loop_None BySelector_Validate_None)

section \<open>New\<close>

text \<open>
  Claim C10. For all options, the client that \<open>New\<close> returns has an HTTP timeout of 30
  seconds and the default timeout 30 seconds in its options, whatever default timeout
  the options carried (so that \<open>WithDefaultTimeout\<close> has no effect on the client); its
  port is 8080 when the given port is at most 0, and its hostname is 127.0.0.1 when the
  given hostname is empty.
\<close>

theorem New_defaults:
  "Timeout (Client (New opts)) = 30 * Second \<and>
   DefaultTimeout (Options (New opts)) = 30 * Second \<and>
   New (WithDefaultTimeout d opts) = New opts \<and>
   (Port opts \<le> 0 \<longrightarrow> Port (Options (New opts)) = 8080) \<and>
   (Hostname opts = '''' \<longrightarrow> Hostname (Options (New opts)) = ''127.0.0.1'')"
  by (simp add: New_def WithDefaultTimeout_def Let_def)

text \<open>
  Options with an empty hostname, port 0 and a default timeout of 5 seconds.
\<close>

theorem New_defaults_witness:
  "Timeout (Client (New \<lparr>HTTPS = False, Hostname = '''', Port = 0,
                          DefaultTimeout = 5 * Second, Prefix = ''''\<rparr>)) = 30000000000 \<and>
   Port (Options (New \<lparr>HTTPS = False, Hostname = '''', Port = 0,
                          DefaultTimeout = 5 * Second, Prefix = ''''\<rparr>)) = 8080 \<and>
   Hostname (Options (New \<lparr>HTTPS = False, Hostname = '''', Port = 0,
                          DefaultTimeout = 5 * Second, Prefix = ''''\<rparr>)) = ''127.0.0.1''"
  using New_defaults [of "\<lparr>HTTPS = False, Hostname = '''', Port = 0,
                          DefaultTimeout = 5 * Second, Prefix = ''''\<rparr>"]
  by (simp add: Second_def Millisecond_def)

section \<open>Query validation\<close>

text \<open>
  Claim C3. The checks of \<open>Query_Validate\<close> on method and content, in the order in which
  the claim lists them: method web with an empty URL fails with \<open>ErrMissingData\<close>;
  method html or dir with empty content fails with \<open>ErrMissingData\<close>; method html or dir
  with content and an empty content type fails with \<open>ErrContentType\<close>; any other method
  fails with the error "undefined content query method" that names the method; in the
  remaining cases the content check is passed, and the result is that of the validation
  of the page parameters followed by that of the render parameters.
\<close>

theorem Query_Validate_content:
  "(Query.Method q = ''web'' \<and> Query.URL q = '''' \<longrightarrow> Query_Validate q = Some ErrMissingData) \<and>
   ((Query.Method q = ''html'' \<or> Query.Method q = ''dir'') \<and> Query.Content q = []
      \<longrightarrow> Query_Validate q = Some ErrMissingData) \<and>
   ((Query.Method q = ''html'' \<or> Query.Method q = ''dir'') \<and> Query.Content q \<noteq> []
      \<and> Query.ContentType q = '''' \<longrightarrow> Query_Validate q = Some ErrContentType) \<and>
   (Query.Method q \<noteq> ''web'' \<and> Query.Method q \<noteq> ''html'' \<and> Query.Method q \<noteq> ''dir''
      \<longrightarrow> Query_Validate q
            = Some (ErrorString (''undefined content query method: '' @ Query.Method q))) \<and>
   ((Query.Method q = ''web'' \<and> Query.URL q \<noteq> '''') \<or>
    ((Query.Method q = ''html'' \<or> Query.Method q = ''dir'') \<and> Query.Content q \<noteq> []
      \<and> Query.ContentType q \<noteq> '''')
      \<longrightarrow> Query_Validate q
            = (case PageParameters_Validate (Query.PageParameters q) of
                 Some e \<Rightarrow> Some e
               | None \<Rightarrow> RenderParameters_Validate (Query.RenderParameters q)))"
  by (auto simp: Query_Validate_def Let_def split: option.splits)


lemma zero_Query_params:
  "PageParameters_Validate zero_PageParameters = None"
  "RenderParameters_Validate zero_RenderParameters = None"
  by (simp_all add: PageParameters_Validate_def zero_PageParameters_def negative_def
      RenderParameters_Validate_def zero_RenderParameters_def Minute_def Second_def Millisecond_def)

text \<open>
  One query for each of the five cases.
\<close>

theorem Query_Validate_content_witness:
  "Query_Validate (zero_Query\<lparr>Query.Method := ''web''\<rparr>) = Some ErrMissingData \<and>
   Query_Validate (zero_Query\<lparr>Query.Method := ''html'', Query.ContentType := ''text/html''\<rparr>)
     = Some ErrMissingData \<and>
   Query_Validate (zero_Query\<lparr>Query.Method := ''dir'', Query.Content := ''PK''\<rparr>)
     = Some ErrContentType \<and>
   Query_Validate (zero_Query\<lparr>Query.Method := ''other''\<rparr>)
     = Some (ErrorString ''undefined content query method: other'') \<and>
   Query_Validate (zero_Query\<lparr>Query.Method := ''html'', Query.Content := ''<html></html>'',
                              Query.ContentType := ''text/html''\<rparr>) = None"
  using Query_Validate_content [of "zero_Query\<lparr>Query.Method := ''web''\<rparr>"]
    Query_Validate_content
      [of "zero_Query\<lparr>Query.Method := ''html'', Query.ContentType := ''text/html''\<rparr>"]
    Query_Validate_content [of "zero_Query\<lparr>Query.Method := ''dir'', Query.Content := ''PK''\<rparr>"]
    Query_Validate_content [of "zero_Query\<lparr>Query.Method := ''other''\<rparr>"]
    Query_Validate_content
      [of "zero_Query\<lparr>Query.Method := ''html'', Query.Content := ''<html></html>'',
                      Query.ContentType := ''text/html''\<rparr>"]
  by (simp add: zero_Query_def zero_Query_params)

section \<open>Page parameters\<close>

lemma IsAPageSize_loop_set: "IsAPageSize_loop p vs \<longleftrightarrow> p \<in> set vs"
  by (induction vs) auto

lemma IsAPageSize_iff: "IsAPageSize p \<longleftrightarrow> p \<in> set pageSizes"
  by (simp add: IsAPageSize_def IsAPageSize_loop_set)

text \<open>
  A dimension is \<open>negative\<close> when it is set and its value in millimeters is below zero;
  otherwise it is absent or not below zero.
\<close>

lemma negative_iff:
  "negative l \<longleftrightarrow> (\<exists>v. l = Some v \<and> Millimeters v < 0)"
  "\<not> negative l \<longleftrightarrow> l = None \<or> (\<exists>v. l = Some v \<and> 0 \<le> Millimeters v)"
  by (auto simp: negative_def split: option.splits)

lemma PageParameters_Validate_ok:
  "\<not> negative (PaperWidth p) \<and> \<not> negative (PaperHeight p) \<and> \<not> negative (MarginTop p) \<and>
    \<not> negative (MarginBottom p) \<and> \<not> negative (MarginLeft p) \<and> \<not> negative (MarginRight p) \<and>
    (\<forall>ps. PageSize p = Some ps \<longrightarrow> ps \<in> set pageSizes)
   \<Longrightarrow> PageParameters_Validate p = None"
  by (auto simp: PageParameters_Validate_def IsAPageSize_iff split: option.splits)

lemma PageParameters_Validate_PaperWidth:
  "negative (PaperWidth p) \<and> \<not> negative (PaperHeight p) \<and> \<not> negative (MarginTop p) \<and>
    \<not> negative (MarginBottom p) \<and> \<not> negative (MarginLeft p) \<and> \<not> negative (MarginRight p)
   \<longrightarrow> PageParameters_Validate p = Some (ErrorString ''negative value for PaperWidth'') \<and>
       (\<forall>v. \<not> negative v \<and> (\<forall>ps. PageSize p = Some ps \<longrightarrow> ps \<in> set pageSizes)
          \<longrightarrow> PageParameters_Validate (p\<lparr>PaperWidth := v\<rparr>) = None)"
proof (intro impI conjI allI)
  assume "negative (PaperWidth p) \<and> \<not> negative (PaperHeight p) \<and> \<not> negative (MarginTop p) \<and> \<not> negative (MarginBottom p) \<and> \<not> negative (MarginLeft p) \<and> \<not> negative (MarginRight p)"
  then show "PageParameters_Validate p = Some (ErrorString ''negative value for PaperWidth'')"
    by (simp add: PageParameters_Validate_def)
next
  fix v
  assume "negative (PaperWidth p) \<and> \<not> negative (PaperHeight p) \<and> \<not> negative (MarginTop p) \<and> \<not> negative (MarginBottom p) \<and> \<not> negative (MarginLeft p) \<and> \<not> negative (MarginRight p)"
    and "\<not> negative v \<and> (\<forall>ps. PageSize p = Some ps \<longrightarrow> ps \<in> set pageSizes)"
  then show "PageParameters_Validate (p\<lparr>PaperWidth := v\<rparr>) = None"
    by (intro PageParameters_Validate_ok) simp
qed

lemma PageParameters_Validate_PaperHeight:
  "negative (PaperHeight p) \<and> \<not> negative (PaperWidth p) \<and> \<not> negative (MarginTop p) \<and>
    \<not> negative (MarginBottom p) \<and> \<not> negative (MarginLeft p) \<and> \<not> negative (MarginRight p)
   \<longrightarrow> PageParameters_Validate p = Some (ErrorString ''negative value for PaperHeight'') \<and>
       (\<forall>v. \<not> negative v \<and> (\<forall>ps. PageSize p = Some ps \<longrightarrow> ps \<in> set pageSizes)
          \<longrightarrow> PageParameters_Validate (p\<lparr>PaperHeight := v\<rparr>) = None)"
proof (intro impI conjI allI)
  assume "negative (PaperHeight p) \<and> \<not> negative (PaperWidth p) \<and> \<not> negative (MarginTop p) \<and> \<not> negative (MarginBottom p) \<and> \<not> negative (MarginLeft p) \<and> \<not> negative (MarginRight p)"
  then show "PageParameters_Validate p = Some (ErrorString ''negative value for PaperHeight'')"
    by (simp add: PageParameters_Validate_def)
next
  fix v
  assume "negative (PaperHeight p) \<and> \<not> negative (PaperWidth p) \<and> \<not> negative (MarginTop p) \<and> \<not> negative (MarginBottom p) \<and> \<not> negative (MarginLeft p) \<and> \<not> negative (MarginRight p)"
    and "\<not> negative v \<and> (\<forall>ps. PageSize p = Some ps \<longrightarrow> ps \<in> set pageSizes)"
  then show "PageParameters_Validate (p\<lparr>PaperHeight := v\<rparr>) = None"
    by (intro PageParameters_Validate_ok) simp
qed

lemma PageParameters_Validate_MarginTop:
  "negative (MarginTop p) \<and> \<not> negative (PaperWidth p) \<and> \<not> negative (PaperHeight p) \<and>
    \<not> negative (MarginBottom p) \<and> \<not> negative (MarginLeft p) \<and> \<not> negative (MarginRight p)
   \<longrightarrow> PageParameters_Validate p = Some (ErrorString ''negative value for MarginTop'') \<and>
       (\<forall>v. \<not> negative v \<and> (\<forall>ps. PageSize p = Some ps \<longrightarrow> ps \<in> set pageSizes)
          \<longrightarrow> PageParameters_Validate (p\<lparr>MarginTop := v\<rparr>) = None)"
proof (intro impI conjI allI)
  assume "negative (MarginTop p) \<and> \<not> negative (PaperWidth p) \<and> \<not> negative (PaperHeight p) \<and> \<not> negative (MarginBottom p) \<and> \<not> negative (MarginLeft p) \<and> \<not> negative (MarginRight p)"
  then show "PageParameters_Validate p = Some (ErrorString ''negative value for MarginTop'')"
    by (simp add: PageParameters_Validate_def)
next
  fix v
  assume "negative (MarginTop p) \<and> \<not> negative (PaperWidth p) \<and> \<not> negative (PaperHeight p) \<and> \<not> negative (MarginBottom p) \<and> \<not> negative (MarginLeft p) \<and> \<not> negative (MarginRight p)"
    and "\<not> negative v \<and> (\<forall>ps. PageSize p = Some ps \<longrightarrow> ps \<in> set pageSizes)"
  then show "PageParameters_Validate (p\<lparr>MarginTop := v\<rparr>) = None"
    by (intro PageParameters_Validate_ok) simp
qed

lemma PageParameters_Validate_MarginBottom:
  "negative (MarginBottom p) \<and> \<not> negative (PaperWidth p) \<and> \<not> negative (PaperHeight p) \<and>
    \<not> negative (MarginTop p) \<and> \<not> negative (MarginLeft p) \<and> \<not> negative (MarginRight p)
   \<longrightarrow> PageParameters_Validate p = Some (ErrorString ''negative value for MarginBottom'') \<and>
       (\<forall>v. \<not> negative v \<and> (\<forall>ps. PageSize p = Some ps \<longrightarrow> ps \<in> set pageSizes)
          \<longrightarrow> PageParameters_Validate (p\<lparr>MarginBottom := v\<rparr>) = None)"
proof (intro impI conjI allI)
  assume "negative (MarginBottom p) \<and> \<not> negative (PaperWidth p) \<and> \<not> negative (PaperHeight p) \<and> \<not> negative (MarginTop p) \<and> \<not> negative (MarginLeft p) \<and> \<not> negative (MarginRight p)"
  then show "PageParameters_Validate p = Some (ErrorString ''negative value for MarginBottom'')"
    by (simp add: PageParameters_Validate_def)
next
  fix v
  assume "negative (MarginBottom p) \<and> \<not> negative (PaperWidth p) \<and> \<not> negative (PaperHeight p) \<and> \<not> negative (MarginTop p) \<and> \<not> negative (MarginLeft p) \<and> \<not> negative (MarginRight p)"
    and "\<not> negative v \<and> (\<forall>ps. PageSize p = Some ps \<longrightarrow> ps \<in> set pageSizes)"
  then show "PageParameters_Validate (p\<lparr>MarginBottom := v\<rparr>) = None"
    by (intro PageParameters_Validate_ok) simp
qed

lemma PageParameters_Validate_MarginLeft:
  "negative (MarginLeft p) \<and> \<not> negative (PaperWidth p) \<and> \<not> negative (PaperHeight p) \<and>
    \<not> negative (MarginTop p) \<and> \<not> negative (MarginBottom p) \<and> \<not> negative (MarginRight p)
   \<longrightarrow> PageParameters_Validate p = Some (ErrorString ''negative value for MarginLeft'') \<and>
       (\<forall>v. \<not> negative v \<and> (\<forall>ps. PageSize p = Some ps \<longrightarrow> ps \<in> set pageSizes)
          \<longrightarrow> PageParameters_Validate (p\<lparr>MarginLeft := v\<rparr>) = None)"
proof (intro impI conjI allI)
  assume "negative (MarginLeft p) \<and> \<not> negative (PaperWidth p) \<and> \<not> negative (PaperHeight p) \<and> \<not> negative (MarginTop p) \<and> \<not> negative (MarginBottom p) \<and> \<not> negative (MarginRight p)"
  then show "PageParameters_Validate p = Some (ErrorString ''negative value for MarginLeft'')"
    by (simp add: PageParameters_Validate_def)
next
  fix v
  assume "negative (MarginLeft p) \<and> \<not> negative (PaperWidth p) \<and> \<not> negative (PaperHeight p) \<and> \<not> negative (MarginTop p) \<and> \<not> negative (MarginBottom p) \<and> \<not> negative (MarginRight p)"
    and "\<not> negative v \<and> (\<forall>ps. PageSize p = Some ps \<longrightarrow> ps \<in> set pageSizes)"
  then show "PageParameters_Validate (p\<lparr>MarginLeft := v\<rparr>) = None"
    by (intro PageParameters_Validate_ok) simp
qed

lemma PageParameters_Validate_MarginRight:
  "negative (MarginRight p) \<and> \<not> negative (PaperWidth p) \<and> \<not> negative (PaperHeight p) \<and>
    \<not> negative (MarginTop p) \<and> \<not> negative (MarginBottom p) \<and> \<not> negative (MarginLeft p)
   \<longrightarrow> PageParameters_Validate p = Some (ErrorString ''negative value for MarginRight'') \<and>
       (\<forall>v. \<not> negative v \<and> (\<forall>ps. PageSize p = Some ps \<longrightarrow> ps \<in> set pageSizes)
          \<longrightarrow> PageParameters_Validate (p\<lparr>MarginRight := v\<rparr>) = None)"
proof (intro impI conjI allI)
  assume "negative (MarginRight p) \<and> \<not> negative (PaperWidth p) \<and> \<not> negative (PaperHeight p) \<and> \<not> negative (MarginTop p) \<and> \<not> negative (MarginBottom p) \<and> \<not> negative (MarginLeft p)"
  then show "PageParameters_Validate p = Some (ErrorString ''negative value for MarginRight'')"
    by (simp add: PageParameters_Validate_def)
next
  fix v
  assume "negative (MarginRight p) \<and> \<not> negative (PaperWidth p) \<and> \<not> negative (PaperHeight p) \<and> \<not> negative (MarginTop p) \<and> \<not> negative (MarginBottom p) \<and> \<not> negative (MarginLeft p)"
    and "\<not> negative v \<and> (\<forall>ps. PageSize p = Some ps \<longrightarrow> ps \<in> set pageSizes)"
  then show "PageParameters_Validate (p\<lparr>MarginRight := v\<rparr>) = None"
    by (intro PageParameters_Validate_ok) simp
qed

text \<open>
  Claim C6. When each of the six dimensions is absent or not negative in millimeters, and
  the page size, if set, is one of \<open>pageSizes\<close>, the validation of the page parameters
  succeeds. When exactly one dimension is negative, the validation fails with the error
  that names this dimension, and replacing it by a length that is not negative makes the
  validation succeed (the page size being absent or one of \<open>pageSizes\<close>). A dimension is
  negative when the value that \<open>Millimeters\<close> returns for it is below zero, which is the
  test of the source.
\<close>

theorem PageParameters_Validate_dimensions:
  "(\<not> negative (PaperWidth p) \<and> \<not> negative (PaperHeight p) \<and> \<not> negative (MarginTop p) \<and>
    \<not> negative (MarginBottom p) \<and> \<not> negative (MarginLeft p) \<and> \<not> negative (MarginRight p) \<and>
    (\<forall>ps. PageSize p = Some ps \<longrightarrow> ps \<in> set pageSizes)
    \<longrightarrow> PageParameters_Validate p = None) \<and>
   (negative (PaperWidth p) \<and> \<not> negative (PaperHeight p) \<and> \<not> negative (MarginTop p) \<and>
    \<not> negative (MarginBottom p) \<and> \<not> negative (MarginLeft p) \<and> \<not> negative (MarginRight p)
    \<longrightarrow> PageParameters_Validate p = Some (ErrorString ''negative value for PaperWidth'') \<and>
        (\<forall>v. \<not> negative v \<and> (\<forall>ps. PageSize p = Some ps \<longrightarrow> ps \<in> set pageSizes)
           \<longrightarrow> PageParameters_Validate (p\<lparr>PaperWidth := v\<rparr>) = None)) \<and>
   (negative (PaperHeight p) \<and> \<not> negative (PaperWidth p) \<and> \<not> negative (MarginTop p) \<and>
    \<not> negative (MarginBottom p) \<and> \<not> negative (MarginLeft p) \<and> \<not> negative (MarginRight p)
    \<longrightarrow> PageParameters_Validate p = Some (ErrorString ''negative value for PaperHeight'') \<and>
        (\<forall>v. \<not> negative v \<and> (\<forall>ps. PageSize p = Some ps \<longrightarrow> ps \<in> set pageSizes)
           \<longrightarrow> PageParameters_Validate (p\<lparr>PaperHeight := v\<rparr>) = None)) \<and>
   (negative (MarginTop p) \<and> \<not> negative (PaperWidth p) \<and> \<not> negative (PaperHeight p) \<and>
    \<not> negative (MarginBottom p) \<and> \<not> negative (MarginLeft p) \<and> \<not> negative (MarginRight p)
    \<longrightarrow> PageParameters_Validate p = Some (ErrorString ''negative value for MarginTop'') \<and>
        (\<forall>v. \<not> negative v \<and> (\<forall>ps. PageSize p = Some ps \<longrightarrow> ps \<in> set pageSizes)
           \<longrightarrow> PageParameters_Validate (p\<lparr>MarginTop := v\<rparr>) = None)) \<and>
   (negative (MarginBottom p) \<and> \<not> negative (PaperWidth p) \<and> \<not> negative (PaperHeight p) \<and>
    \<not> negative (MarginTop p) \<and> \<not> negative (MarginLeft p) \<and> \<not> negative (MarginRight p)
    \<longrightarrow> PageParameters_Validate p = Some (ErrorString ''negative value for MarginBottom'') \<and>
        (\<forall>v. \<not> negative v \<and> (\<forall>ps. PageSize p = Some ps \<longrightarrow> ps \<in> set pageSizes)
           \<longrightarrow> PageParameters_Validate (p\<lparr>MarginBottom := v\<rparr>) = None)) \<and>
   (negative (MarginLeft p) \<and> \<not> negative (PaperWidth p) \<and> \<not> negative (PaperHeight p) \<and>
    \<not> negative (MarginTop p) \<and> \<not> negative (MarginBottom p) \<and> \<not> negative (MarginRight p)
    \<longrightarrow> PageParameters_Validate p = Some (ErrorString ''negative value for MarginLeft'') \<and>
        (\<forall>v. \<not> negative v \<and> (\<forall>ps. PageSize p = Some ps \<longrightarrow> ps \<in> set pageSizes)
           \<longrightarrow> PageParameters_Validate (p\<lparr>MarginLeft := v\<rparr>) = None)) \<and>
   (negative (MarginRight p) \<and> \<not> negative (PaperWidth p) \<and> \<not> negative (PaperHeight p) \<and>
    \<not> negative (MarginTop p) \<and> \<not> negative (MarginBottom p) \<and> \<not> negative (MarginLeft p)
    \<longrightarrow> PageParameters_Validate p = Some (ErrorString ''negative value for MarginRight'') \<and>
        (\<forall>v. \<not> negative v \<and> (\<forall>ps. PageSize p = Some ps \<longrightarrow> ps \<in> set pageSizes)
           \<longrightarrow> PageParameters_Validate (p\<lparr>MarginRight := v\<rparr>) = None))"
  using PageParameters_Validate_ok [of p] PageParameters_Validate_PaperWidth [of p] PageParameters_Validate_PaperHeight [of p]
    PageParameters_Validate_MarginTop [of p] PageParameters_Validate_MarginBottom [of p]
    PageParameters_Validate_MarginLeft [of p] PageParameters_Validate_MarginRight [of p]
  by blast

text \<open>
  A valid value, and for each dimension a value in which it alone is negative, before and
  after the negative length is replaced.
\<close>

theorem PageParameters_Validate_dimensions_witness:
  "PageParameters_Validate (DefaultPageParameters\<lparr>PaperWidth := Some (Millimeter 210), PaperHeight := Some (Inch 11), PageSize := Some A4\<rparr>) = None \<and>
   PageParameters_Validate (DefaultPageParameters\<lparr>PaperWidth := Some (Inch (- 1))\<rparr>)
     = Some (ErrorString ''negative value for PaperWidth'') \<and>
   PageParameters_Validate (DefaultPageParameters\<lparr>PaperWidth := Some (Inch (- 1)), PaperWidth := Some (Point 20)\<rparr>) = None \<and>
   PageParameters_Validate (DefaultPageParameters\<lparr>PaperHeight := Some (Inch (- 1))\<rparr>)
     = Some (ErrorString ''negative value for PaperHeight'') \<and>
   PageParameters_Validate (DefaultPageParameters\<lparr>PaperHeight := Some (Inch (- 1)), PaperHeight := Some (Point 20)\<rparr>) = None \<and>
   PageParameters_Validate (DefaultPageParameters\<lparr>MarginTop := Some (Inch (- 1))\<rparr>)
     = Some (ErrorString ''negative value for MarginTop'') \<and>
   PageParameters_Validate (DefaultPageParameters\<lparr>MarginTop := Some (Inch (- 1)), MarginTop := Some (Point 20)\<rparr>) = None \<and>
   PageParameters_Validate (DefaultPageParameters\<lparr>MarginBottom := Some (Inch (- 1))\<rparr>)
     = Some (ErrorString ''negative value for MarginBottom'') \<and>
   PageParameters_Validate (DefaultPageParameters\<lparr>MarginBottom := Some (Inch (- 1)), MarginBottom := Some (Point 20)\<rparr>) = None \<and>
   PageParameters_Validate (DefaultPageParameters\<lparr>MarginLeft := Some (Inch (- 1))\<rparr>)
     = Some (ErrorString ''negative value for MarginLeft'') \<and>
   PageParameters_Validate (DefaultPageParameters\<lparr>MarginLeft := Some (Inch (- 1)), MarginLeft := Some (Point 20)\<rparr>) = None \<and>
   PageParameters_Validate (DefaultPageParameters\<lparr>MarginRight := Some (Inch (- 1))\<rparr>)
     = Some (ErrorString ''negative value for MarginRight'') \<and>
   PageParameters_Validate (DefaultPageParameters\<lparr>MarginRight := Some (Inch (- 1)), MarginRight := Some (Point 20)\<rparr>) = None"
  using PageParameters_Validate_dimensions [of "DefaultPageParameters\<lparr>PaperWidth := Some (Millimeter 210), PaperHeight := Some (Inch 11), PageSize := Some A4\<rparr>"]
    PageParameters_Validate_dimensions [of "DefaultPageParameters\<lparr>PaperWidth := Some (Inch (- 1))\<rparr>", THEN conjunct2]
    PageParameters_Validate_dimensions [of "DefaultPageParameters\<lparr>PaperHeight := Some (Inch (- 1))\<rparr>", THEN conjunct2]
    PageParameters_Validate_dimensions [of "DefaultPageParameters\<lparr>MarginTop := Some (Inch (- 1))\<rparr>", THEN conjunct2]
    PageParameters_Validate_dimensions [of "DefaultPageParameters\<lparr>MarginBottom := Some (Inch (- 1))\<rparr>", THEN conjunct2]
    PageParameters_Validate_dimensions [of "DefaultPageParameters\<lparr>MarginLeft := Some (Inch (- 1))\<rparr>", THEN conjunct2]
    PageParameters_Validate_dimensions [of "DefaultPageParameters\<lparr>MarginRight := Some (Inch (- 1))\<rparr>", THEN conjunct2]
  by (simp add: DefaultPageParameters_def negative_def inchToMm_def pointToMm_def pageSizes_def
      A4_def)

section \<open>The recorded error of the builder\<close>

lemma setters_keep_err:
  "err (QueryBuilder_PaperWidth l q) = err q"
  "err (QueryBuilder_PaperHeight l q) = err q"
  "err (QueryBuilder_PageSize ps q) = err q"
  "err (QueryBuilder_Orientation b q) = err q"
  "err (QueryBuilder_MarginTop l q) = err q"
  "err (QueryBuilder_MarginBottom l q) = err q"
  "err (QueryBuilder_MarginLeft l q) = err q"
  "err (QueryBuilder_MarginRight l q) = err q"
  "err (QueryBuilder_WaitTime d q) = err q"
  "err (QueryBuilder_WaitReady s t q) = err q"
  "err (QueryBuilder_WaitVisible s t q) = err q"
  "err (QueryBuilder_TimeoutDuration d q) = err q"
  by (simp_all add: QueryBuilder_PaperWidth_def QueryBuilder_PaperHeight_def
      QueryBuilder_PageSize_def QueryBuilder_Orientation_def QueryBuilder_MarginTop_def
      QueryBuilder_MarginBottom_def QueryBuilder_MarginLeft_def QueryBuilder_MarginRight_def
      QueryBuilder_WaitTime_def QueryBuilder_WaitReady_def QueryBuilder_WaitVisible_def
      QueryBuilder_TimeoutDuration_def)

lemma SetContent_sticky: "err q \<noteq> None \<Longrightarrow> QueryBuilder_SetContent c q = q"
  by (simp add: QueryBuilder_SetContent_def)

lemma SetContent_twice:
  assumes "err q = None" "Query.ContentType (query q) \<noteq> []"
    and "Content.Method c = ''dir'' \<or> Content.Method c = ''html'' \<or> Content.Method c = ''web''"
  shows "QueryBuilder_SetContent c q = q\<lparr>err := Some ErrContentTypeDeclared\<rparr>"
  using assms by (auto simp: QueryBuilder_SetContent_def)

lemma sticky_Validate:
  "err q = Some e \<Longrightarrow> QueryBuilder_Validate q = Some e \<and> QueryBuilder_Query q = Inl e"
  by (simp add: QueryBuilder_Validate_def QueryBuilder_Query_def)

lemma twice_example:
  "QueryBuilder_SetContent (webURL ''http://example.com'')
     (QueryBuilder_SetContent (StringContent ''<html></html>'') BuildHTMLQuery)
   = \<lparr>query = zero_Query\<lparr>Query.Content := ''<html></html>'', Query.ContentType := ''text/html'',
                            Query.Method := ''html''\<rparr>,
      err = Some ErrContentTypeDeclared\<rparr>"
  by (simp add: QueryBuilder_SetContent_def webURL_def StringContent_def BuildHTMLQuery_def
      zero_Query_def)

text \<open>
  Claim C1, as stated, says that every setter leaves the draft query unchanged once an
  error is recorded. Here the second call of \<open>QueryBuilder_SetContent\<close> records
  \<open>ErrContentTypeDeclared\<close>, and the call of \<open>QueryBuilder_PaperWidth\<close> that follows
  changes the draft query.
\<close>

theorem sticky_setters_counterexample:
  "err (QueryBuilder_SetContent (webURL ''http://example.com'')
          (QueryBuilder_SetContent (StringContent ''<html></html>'') BuildHTMLQuery))
     = Some ErrContentTypeDeclared \<and>
   query (QueryBuilder_PaperWidth (Some (Millimeter 210))
            (QueryBuilder_SetContent (webURL ''http://example.com'')
               (QueryBuilder_SetContent (StringContent ''<html></html>'') BuildHTMLQuery)))
     \<noteq> query (QueryBuilder_SetContent (webURL ''http://example.com'')
                 (QueryBuilder_SetContent (StringContent ''<html></html>'') BuildHTMLQuery))"
  unfolding twice_example
  by (simp add: QueryBuilder_PaperWidth_def zero_Query_def zero_PageParameters_def)

lemma setters_write:
  "query (QueryBuilder_PaperWidth l q)
     = (query q)\<lparr>Query.PageParameters :=
         (Query.PageParameters (query q))\<lparr>PaperWidth := l\<rparr>\<rparr>"
  "query (QueryBuilder_PaperHeight l q)
     = (query q)\<lparr>Query.PageParameters :=
         (Query.PageParameters (query q))\<lparr>PaperHeight := l\<rparr>\<rparr>"
  "query (QueryBuilder_Orientation b q)
     = (query q)\<lparr>Query.PageParameters :=
         (Query.PageParameters (query q))\<lparr>Orientation := b\<rparr>\<rparr>"
  "query (QueryBuilder_MarginTop l q)
     = (query q)\<lparr>Query.PageParameters :=
         (Query.PageParameters (query q))\<lparr>MarginTop := l\<rparr>\<rparr>"
  "query (QueryBuilder_MarginBottom l q)
     = (query q)\<lparr>Query.PageParameters :=
         (Query.PageParameters (query q))\<lparr>MarginBottom := l\<rparr>\<rparr>"
  "query (QueryBuilder_MarginLeft l q)
     = (query q)\<lparr>Query.PageParameters :=
         (Query.PageParameters (query q))\<lparr>MarginLeft := l\<rparr>\<rparr>"
  "query (QueryBuilder_MarginRight l q)
     = (query q)\<lparr>Query.PageParameters :=
         (Query.PageParameters (query q))\<lparr>MarginRight := l\<rparr>\<rparr>"
  "query (QueryBuilder_WaitTime d q)
     = (query q)\<lparr>Query.RenderParameters :=
         (Query.RenderParameters (query q))\<lparr>WaitTime := d\<rparr>\<rparr>"
  "query (QueryBuilder_WaitReady s t q)
     = (query q)\<lparr>Query.RenderParameters :=
         (Query.RenderParameters (query q))\<lparr>WaitReady :=
            WaitReady (Query.RenderParameters (query q)) @ [\<lparr>Selector = s, By = t\<rparr>]\<rparr>\<rparr>"
  "query (QueryBuilder_WaitVisible s t q)
     = (query q)\<lparr>Query.RenderParameters :=
         (Query.RenderParameters (query q))\<lparr>WaitVisible :=
            WaitVisible (Query.RenderParameters (query q)) @ [\<lparr>Selector = s, By = t\<rparr>]\<rparr>\<rparr>"
  "query (QueryBuilder_TimeoutDuration d q) = (query q)\<lparr>Query.TimeoutDuration := d\<rparr>"
  by (simp_all add: QueryBuilder_PaperWidth_def QueryBuilder_PaperHeight_def
      QueryBuilder_Orientation_def QueryBuilder_MarginTop_def
      QueryBuilder_MarginBottom_def QueryBuilder_MarginLeft_def QueryBuilder_MarginRight_def
      QueryBuilder_WaitTime_def QueryBuilder_WaitReady_def QueryBuilder_WaitVisible_def
      QueryBuilder_TimeoutDuration_def)

lemma PageSize_write:
  "ps \<noteq> Undefined \<Longrightarrow>
     query (QueryBuilder_PageSize ps q)
       = (query q)\<lparr>Query.PageParameters :=
           (Query.PageParameters (query q))\<lparr>PageSize := Some ps\<rparr>\<rparr>"
  "QueryBuilder_PageSize Undefined q = q"
  by (simp_all add: QueryBuilder_PageSize_def)

text \<open>
  Claim C1, amended. A call of \<open>QueryBuilder_SetContent\<close> with method dir, html or web
  on a builder without error whose content type is already set records
  \<open>ErrContentTypeDeclared\<close> and changes nothing else: content, content type, URL and
  method of the draft query stay. Once an error \<open>e\<close> is recorded,
  \<open>QueryBuilder_SetContent\<close> returns the builder unchanged, and after every other setter
  (paper width and height, page size, orientation, the four margins, wait time, wait
  ready, wait visible, timeout) \<open>QueryBuilder_Err\<close> still reports \<open>e\<close>; validation of
  the builder and \<open>QueryBuilder_Query\<close> fail with \<open>e\<close>. With the error recorded, each
  of these other setters still writes its field of the draft query and nothing else of
  it: the paper width, the paper height, the orientation, each margin, the wait time
  and the timeout are assigned, the wait conditions are appended to their list, and the
  page size is assigned when it is not \<open>Undefined\<close>, while the page size setter called
  with \<open>Undefined\<close> returns the builder unchanged.
\<close>

theorem sticky_error_first_wins:
  "(err q = None \<and> Query.ContentType (query q) \<noteq> [] \<and>
    (Content.Method c = ''dir'' \<or> Content.Method c = ''html'' \<or> Content.Method c = ''web'')
      \<longrightarrow> QueryBuilder_SetContent c q = q\<lparr>err := Some ErrContentTypeDeclared\<rparr>) \<and>
   (err q = Some e \<longrightarrow>
      QueryBuilder_SetContent c q = q \<and>
      QueryBuilder_Err (QueryBuilder_PaperWidth l q) = Some e \<and>
      QueryBuilder_Err (QueryBuilder_PaperHeight l q) = Some e \<and>
      QueryBuilder_Err (QueryBuilder_PageSize ps q) = Some e \<and>
      QueryBuilder_Err (QueryBuilder_Orientation b q) = Some e \<and>
      QueryBuilder_Err (QueryBuilder_MarginTop l q) = Some e \<and>
      QueryBuilder_Err (QueryBuilder_MarginBottom l q) = Some e \<and>
      QueryBuilder_Err (QueryBuilder_MarginLeft l q) = Some e \<and>
      QueryBuilder_Err (QueryBuilder_MarginRight l q) = Some e \<and>
      QueryBuilder_Err (QueryBuilder_WaitTime d q) = Some e \<and>
      QueryBuilder_Err (QueryBuilder_WaitReady s t q) = Some e \<and>
      QueryBuilder_Err (QueryBuilder_WaitVisible s t q) = Some e \<and>
      QueryBuilder_Err (QueryBuilder_TimeoutDuration d q) = Some e \<and>
      QueryBuilder_Validate q = Some e \<and> QueryBuilder_Query q = Inl e \<and>
      query (QueryBuilder_PaperWidth l q)
        = (query q)\<lparr>Query.PageParameters :=
            (Query.PageParameters (query q))\<lparr>PaperWidth := l\<rparr>\<rparr> \<and>
      query (QueryBuilder_PaperHeight l q)
        = (query q)\<lparr>Query.PageParameters :=
            (Query.PageParameters (query q))\<lparr>PaperHeight := l\<rparr>\<rparr> \<and>
      (ps \<noteq> Undefined \<longrightarrow>
         query (QueryBuilder_PageSize ps q)
           = (query q)\<lparr>Query.PageParameters :=
               (Query.PageParameters (query q))\<lparr>PageSize := Some ps\<rparr>\<rparr>) \<and>
      QueryBuilder_PageSize Undefined q = q \<and>
      query (QueryBuilder_Orientation b q)
        = (query q)\<lparr>Query.PageParameters :=
            (Query.PageParameters (query q))\<lparr>Orientation := b\<rparr>\<rparr> \<and>
      query (QueryBuilder_MarginTop l q)
        = (query q)\<lparr>Query.PageParameters :=
            (Query.PageParameters (query q))\<lparr>MarginTop := l\<rparr>\<rparr> \<and>
      query (QueryBuilder_MarginBottom l q)
        = (query q)\<lparr>Query.PageParameters :=
            (Query.PageParameters (query q))\<lparr>MarginBottom := l\<rparr>\<rparr> \<and>
      query (QueryBuilder_MarginLeft l q)
        = (query q)\<lparr>Query.PageParameters :=
            (Query.PageParameters (query q))\<lparr>MarginLeft := l\<rparr>\<rparr> \<and>
      query (QueryBuilder_MarginRight l q)
        = (query q)\<lparr>Query.PageParameters :=
            (Query.PageParameters (query q))\<lparr>MarginRight := l\<rparr>\<rparr> \<and>
      query (QueryBuilder_WaitTime d q)
        = (query q)\<lparr>Query.RenderParameters :=
            (Query.RenderParameters (query q))\<lparr>WaitTime := d\<rparr>\<rparr> \<and>
      query (QueryBuilder_WaitReady s t q)
        = (query q)\<lparr>Query.RenderParameters :=
            (Query.RenderParameters (query q))\<lparr>WaitReady :=
               WaitReady (Query.RenderParameters (query q)) @ [\<lparr>Selector = s, By = t\<rparr>]\<rparr>\<rparr> \<and>
      query (QueryBuilder_WaitVisible s t q)
        = (query q)\<lparr>Query.RenderParameters :=
            (Query.RenderParameters (query q))\<lparr>WaitVisible :=
               WaitVisible (Query.RenderParameters (query q)) @ [\<lparr>Selector = s, By = t\<rparr>]\<rparr>\<rparr> \<and>
      query (QueryBuilder_TimeoutDuration d q) = (query q)\<lparr>Query.TimeoutDuration := d\<rparr>)"
proof (intro conjI impI)
  assume "err q = None \<and> Query.ContentType (query q) \<noteq> [] \<and>
    (Content.Method c = ''dir'' \<or> Content.Method c = ''html'' \<or> Content.Method c = ''web'')"
  then show "QueryBuilder_SetContent c q = q\<lparr>err := Some ErrContentTypeDeclared\<rparr>"
    by (intro SetContent_twice) simp_all
next
  assume "err q = Some e"
  then show "QueryBuilder_SetContent c q = q"
    by (simp add: SetContent_sticky)
next
  assume "err q = Some e"
  then show "QueryBuilder_Validate q = Some e" and "QueryBuilder_Query q = Inl e"
    by (simp_all add: sticky_Validate)
next
  assume "ps \<noteq> Undefined"
  then show "query (QueryBuilder_PageSize ps q)
           = (query q)\<lparr>Query.PageParameters :=
               (Query.PageParameters (query q))\<lparr>PageSize := Some ps\<rparr>\<rparr>"
    by (rule PageSize_write)
qed (simp_all add: setters_keep_err setters_write PageSize_write QueryBuilder_Err_def)

text \<open>
  A builder that holds an HTML document: the second content is refused. With the error
  recorded, a third content changes nothing; the paper width, the page size \<open>A4\<close> and a
  wait condition are written into the draft query and leave the error, and the page size
  \<open>Undefined\<close> changes nothing.
\<close>

theorem sticky_error_first_wins_witness:
  "QueryBuilder_SetContent (webURL ''http://example.com'')
     \<lparr>query = zero_Query\<lparr>Query.Content := ''<html></html>'', Query.ContentType := ''text/html'',
                          Query.Method := ''html''\<rparr>, err = None\<rparr>
   = \<lparr>query = zero_Query\<lparr>Query.Content := ''<html></html>'', Query.ContentType := ''text/html'',
                            Query.Method := ''html''\<rparr>,
      err = Some ErrContentTypeDeclared\<rparr> \<and>
   QueryBuilder_SetContent (zipDirectory ''PK'')
     \<lparr>query = zero_Query\<lparr>Query.Content := ''<html></html>'', Query.ContentType := ''text/html'',
                          Query.Method := ''html''\<rparr>, err = Some ErrContentTypeDeclared\<rparr>
   = \<lparr>query = zero_Query\<lparr>Query.Content := ''<html></html>'', Query.ContentType := ''text/html'',
                            Query.Method := ''html''\<rparr>,
      err = Some ErrContentTypeDeclared\<rparr> \<and>
   QueryBuilder_Err (QueryBuilder_PaperWidth (Some (Millimeter 210))
     \<lparr>query = zero_Query\<lparr>Query.Content := ''<html></html>'', Query.ContentType := ''text/html'',
                          Query.Method := ''html''\<rparr>, err = Some ErrContentTypeDeclared\<rparr>)
   = Some ErrContentTypeDeclared \<and>
   QueryBuilder_Query
     \<lparr>query = zero_Query\<lparr>Query.Content := ''<html></html>'', Query.ContentType := ''text/html'',
                          Query.Method := ''html''\<rparr>, err = Some ErrContentTypeDeclared\<rparr>
   = Inl ErrContentTypeDeclared \<and>
   PaperWidth (Query.PageParameters (query (QueryBuilder_PaperWidth (Some (Millimeter 210))
     \<lparr>query = zero_Query\<lparr>Query.Content := ''<html></html>'', Query.ContentType := ''text/html'',
                          Query.Method := ''html''\<rparr>, err = Some ErrContentTypeDeclared\<rparr>)))
   = Some (Millimeter 210) \<and>
   PageSize (Query.PageParameters (query (QueryBuilder_PageSize A4
     \<lparr>query = zero_Query\<lparr>Query.Content := ''<html></html>'', Query.ContentType := ''text/html'',
                          Query.Method := ''html''\<rparr>, err = Some ErrContentTypeDeclared\<rparr>)))
   = Some A4 \<and>
   WaitVisible (Query.RenderParameters (query (QueryBuilder_WaitVisible ''#main'' ByID
     \<lparr>query = zero_Query\<lparr>Query.Content := ''<html></html>'', Query.ContentType := ''text/html'',
                          Query.Method := ''html''\<rparr>, err = Some ErrContentTypeDeclared\<rparr>)))
   = [\<lparr>Selector = ''#main'', By = ByID\<rparr>] \<and>
   QueryBuilder_PageSize Undefined
     \<lparr>query = zero_Query\<lparr>Query.Content := ''<html></html>'', Query.ContentType := ''text/html'',
                          Query.Method := ''html''\<rparr>, err = Some ErrContentTypeDeclared\<rparr>
   = \<lparr>query = zero_Query\<lparr>Query.Content := ''<html></html>'', Query.ContentType := ''text/html'',
                            Query.Method := ''html''\<rparr>,
      err = Some ErrContentTypeDeclared\<rparr>"
  using sticky_error_first_wins
      [where q = "\<lparr>query = zero_Query\<lparr>Query.Content := ''<html></html>'',
                Query.ContentType := ''text/html'', Query.Method := ''html''\<rparr>, err = None\<rparr>"
         and c = "webURL ''http://example.com''", THEN conjunct1]
    sticky_error_first_wins
      [where q = "\<lparr>query = zero_Query\<lparr>Query.Content := ''<html></html>'',
                Query.ContentType := ''text/html'', Query.Method := ''html''\<rparr>,
             err = Some ErrContentTypeDeclared\<rparr>"
         and c = "zipDirectory ''PK''" and e = ErrContentTypeDeclared
         and l = "Some (Millimeter 210)" and ps = A4 and s = "''#main''" and t = ByID,
       THEN conjunct2]
  by (simp add: webURL_def zero_Query_def zero_RenderParameters_def A4_def Undefined_def)

section \<open>The conversion call\<close>

lemma ConvertHTML_httpErr_cases:
  "ConvertHTML_httpErr 201 = None"
  "ConvertHTML_httpErr 400 = Some ErrBadRequest"
  "ConvertHTML_httpErr 401 = Some ErrUnauthorized"
  "ConvertHTML_httpErr 404 = Some ErrNotFound"
  "ConvertHTML_httpErr 408 = Some ErrTimedOut"
  "ConvertHTML_httpErr 501 = Some ErrNotImplemented"
  "s \<noteq> 201 \<Longrightarrow> s \<noteq> 400 \<Longrightarrow> s \<noteq> 401 \<Longrightarrow> s \<noteq> 404 \<Longrightarrow> s \<noteq> 408 \<Longrightarrow> s \<noteq> 501
     \<Longrightarrow> ConvertHTML_httpErr s = Some ErrInternalError"
  by (simp_all add: ConvertHTML_httpErr_def StatusCreated_def StatusBadRequest_def
      StatusUnauthorized_def StatusNotFound_def StatusRequestTimeout_def
      StatusNotImplemented_def)

text \<open>
  The call up to the response: when the query is valid, the request is built and the
  exchange returns a response, the result is decided by the reader and the status.
\<close>

lemma ConvertHTML_response:
  assumes "Query_Validate q = None"
    and "Client_getGenerateRequest E (client w) q = Inr req"
    and "http_Do E (if Query.TimeoutDuration q \<noteq> 0
                    then (Client (client w))\<lparr>Timeout := Query.TimeoutDuration q\<rparr>
                    else Client (client w)) req = Inr resp"
  shows "fst (Client_ConvertHTML E q w) =
           (case ConvertHTML_reader E resp of
              Inl e \<Rightarrow> Inl e
            | Inr (data, readErr) \<Rightarrow>
                (case (readErr, ConvertHTML_httpErr (StatusCode resp)) of
                   (Some re, None) \<Rightarrow> Inl (ErrorString (''UniHTML server error '' @ Error re))
                 | (_, Some he) \<Rightarrow> Inl (WrapError (data @ '' '' @ Error he) he)
                 | (None, None) \<Rightarrow>
                     Inr \<lparr>ID = Header_Get (Response.Header resp) ''X-Job-ID'', Data = data\<rparr>))"
  using assms
  by (simp add: Client_ConvertHTML_def Let_def io_ReadAll_def
      split: sum.splits option.splits prod.splits)

lemma ConvertHTML_decoded:
  assumes "Query_Validate q = None"
    and "Client_getGenerateRequest E (client w) q = Inr req"
    and "http_Do E (if Query.TimeoutDuration q \<noteq> 0
                    then (Client (client w))\<lparr>Timeout := Query.TimeoutDuration q\<rparr>
                    else Client (client w)) req = Inr resp"
    and "ConvertHTML_reader E resp = Inr (data, readErr)"
  shows "ConvertHTML_httpErr (StatusCode resp) = Some he
           \<Longrightarrow> fst (Client_ConvertHTML E q w) = Inl (WrapError (data @ '' '' @ Error he) he)"
    and "ConvertHTML_httpErr (StatusCode resp) = None \<Longrightarrow> readErr = None
           \<Longrightarrow> fst (Client_ConvertHTML E q w)
               = Inr \<lparr>ID = Header_Get (Response.Header resp) ''X-Job-ID'', Data = data\<rparr>"
    and "ConvertHTML_httpErr (StatusCode resp) = None \<Longrightarrow> readErr = Some re
           \<Longrightarrow> fst (Client_ConvertHTML E q w)
               = Inl (ErrorString (''UniHTML server error '' @ Error re))"
  using ConvertHTML_response [OF assms(1-3)] assms(4)
  by (simp_all split: option.splits)

lemma ConvertHTML_reader_cases:
  "Header_Get (Response.Header resp) ''Content-Encoding'' = ''gzip''
     \<Longrightarrow> ConvertHTML_reader E resp = gzip_NewReader E (Response.Body resp)"
  "Header_Get (Response.Header resp) ''Content-Encoding'' = ''deflate''
     \<Longrightarrow> ConvertHTML_reader E resp = Inr (flate_NewReader E (Response.Body resp))"
  "Header_Get (Response.Header resp) ''Content-Encoding'' = []
     \<Longrightarrow> ConvertHTML_reader E resp = Inr (Response.Body resp)"
  "Header_Get (Response.Header resp) ''Content-Encoding'' \<notin> {''gzip'', ''deflate'', []}
     \<Longrightarrow> ConvertHTML_reader E resp
         = Inl (ErrorString (''unsupported Content-Encoding: ''
                  @ Header_Get (Response.Header resp) ''Content-Encoding'' @ '' header''))"
  by (simp_all add: ConvertHTML_reader_def Let_def split: sum.splits)

lemma Header_Get_absent: "h key = None \<Longrightarrow> Header_Get h key = []"
  by (simp add: Header_Get_def)

lemma ConvertHTML_reader_decoded:
  assumes "Header_Get (Response.Header resp) ''Content-Encoding'' = ''gzip'' \<and>
           gzip_NewReader E (Response.Body resp) = Inr (data, readErr) \<or>
           Header_Get (Response.Header resp) ''Content-Encoding'' = ''deflate'' \<and>
           flate_NewReader E (Response.Body resp) = (data, readErr) \<or>
           Header_Get (Response.Header resp) ''Content-Encoding'' = [] \<and>
           Response.Body resp = (data, readErr)"
  shows "ConvertHTML_reader E resp = Inr (data, readErr)"
  using assms by (auto simp: ConvertHTML_reader_cases)

text \<open>
  Claim C2, amended. For a valid query whose request is built and a response of the
  server, the result is decided by the header Content-Encoding first.

  When the header is gzip and the gzip reader opens on the body, or the header is
  deflate, or the header is empty or absent, let \<open>data\<close> be the bytes that reading the
  gzip reader, the flate reader or the body itself returns, and \<open>readErr\<close> the error
  that ended the reading, if any. Then status 201 is success when \<open>readErr\<close> is none:
  the result carries the value of the header X-Job-ID as \<open>ID\<close> and \<open>data\<close> as \<open>Data\<close>;
  with a read error \<open>re\<close>, status 201 returns the error "UniHTML server error" with the
  message of \<open>re\<close>. Status 400 gives \<open>ErrBadRequest\<close>, 401 \<open>ErrUnauthorized\<close>, 404
  \<open>ErrNotFound\<close>, 408 \<open>ErrTimedOut\<close>, 501 \<open>ErrNotImplemented\<close> and every other status
  \<open>ErrInternalError\<close>, whether or not the reading ended in an error: the error returned
  wraps this kind, and its message is \<open>data\<close>, a space and the message of the kind.

  When the header is gzip and the gzip reader does not open, the call returns the
  error of the gzip reader, and when the header has any other value the call returns
  the error "unsupported Content-Encoding"; in both cases for every status.
\<close>

theorem ConvertHTML_status_mapping:
  assumes "Query_Validate q = None"
    and "Client_getGenerateRequest E (client w) q = Inr req"
    and "http_Do E (if Query.TimeoutDuration q \<noteq> 0
                    then (Client (client w))\<lparr>Timeout := Query.TimeoutDuration q\<rparr>
                    else Client (client w)) req = Inr resp"
  shows
    "(Header_Get (Response.Header resp) ''Content-Encoding'' = ''gzip'' \<and>
      gzip_NewReader E (Response.Body resp) = Inr (data, readErr) \<or>
      Header_Get (Response.Header resp) ''Content-Encoding'' = ''deflate'' \<and>
      flate_NewReader E (Response.Body resp) = (data, readErr) \<or>
      Header_Get (Response.Header resp) ''Content-Encoding'' = [] \<and>
      Response.Body resp = (data, readErr) \<longrightarrow>
        (StatusCode resp = 201 \<and> readErr = None \<longrightarrow>
           fst (Client_ConvertHTML E q w)
             = Inr \<lparr>ID = Header_Get (Response.Header resp) ''X-Job-ID'', Data = data\<rparr>) \<and>
        (StatusCode resp = 201 \<and> readErr = Some re \<longrightarrow>
           fst (Client_ConvertHTML E q w)
             = Inl (ErrorString (''UniHTML server error '' @ Error re))) \<and>
        (StatusCode resp = 400 \<longrightarrow>
           fst (Client_ConvertHTML E q w)
             = Inl (WrapError (data @ '' '' @ Error ErrBadRequest) ErrBadRequest)) \<and>
        (StatusCode resp = 401 \<longrightarrow>
           fst (Client_ConvertHTML E q w)
             = Inl (WrapError (data @ '' '' @ Error ErrUnauthorized) ErrUnauthorized)) \<and>
        (StatusCode resp = 404 \<longrightarrow>
           fst (Client_ConvertHTML E q w)
             = Inl (WrapError (data @ '' '' @ Error ErrNotFound) ErrNotFound)) \<and>
        (StatusCode resp = 408 \<longrightarrow>
           fst (Client_ConvertHTML E q w)
             = Inl (WrapError (data @ '' '' @ Error ErrTimedOut) ErrTimedOut)) \<and>
        (StatusCode resp = 501 \<longrightarrow>
           fst (Client_ConvertHTML E q w)
             = Inl (WrapError (data @ '' '' @ Error ErrNotImplemented) ErrNotImplemented)) \<and>
        (StatusCode resp \<notin> {201, 400, 401, 404, 408, 501} \<longrightarrow>
           fst (Client_ConvertHTML E q w)
             = Inl (WrapError (data @ '' '' @ Error ErrInternalError) ErrInternalError))) \<and>
     (Header_Get (Response.Header resp) ''Content-Encoding'' = ''gzip'' \<and>
      gzip_NewReader E (Response.Body resp) = Inl ge \<longrightarrow>
        fst (Client_ConvertHTML E q w) = Inl ge) \<and>
     (Header_Get (Response.Header resp) ''Content-Encoding'' \<notin> {''gzip'', ''deflate'', []} \<longrightarrow>
        fst (Client_ConvertHTML E q w)
          = Inl (ErrorString (''unsupported Content-Encoding: ''
                   @ Header_Get (Response.Header resp) ''Content-Encoding'' @ '' header'')))"
proof (intro conjI)
  show "Header_Get (Response.Header resp) ''Content-Encoding'' = ''gzip'' \<and>
      gzip_NewReader E (Response.Body resp) = Inr (data, readErr) \<or>
      Header_Get (Response.Header resp) ''Content-Encoding'' = ''deflate'' \<and>
      flate_NewReader E (Response.Body resp) = (data, readErr) \<or>
      Header_Get (Response.Header resp) ''Content-Encoding'' = [] \<and>
      Response.Body resp = (data, readErr) \<longrightarrow>
        (StatusCode resp = 201 \<and> readErr = None \<longrightarrow>
           fst (Client_ConvertHTML E q w)
             = Inr \<lparr>ID = Header_Get (Response.Header resp) ''X-Job-ID'', Data = data\<rparr>) \<and>
        (StatusCode resp = 201 \<and> readErr = Some re \<longrightarrow>
           fst (Client_ConvertHTML E q w)
             = Inl (ErrorString (''UniHTML server error '' @ Error re))) \<and>
        (StatusCode resp = 400 \<longrightarrow>
           fst (Client_ConvertHTML E q w)
             = Inl (WrapError (data @ '' '' @ Error ErrBadRequest) ErrBadRequest)) \<and>
        (StatusCode resp = 401 \<longrightarrow>
           fst (Client_ConvertHTML E q w)
             = Inl (WrapError (data @ '' '' @ Error ErrUnauthorized) ErrUnauthorized)) \<and>
        (StatusCode resp = 404 \<longrightarrow>
           fst (Client_ConvertHTML E q w)
             = Inl (WrapError (data @ '' '' @ Error ErrNotFound) ErrNotFound)) \<and>
        (StatusCode resp = 408 \<longrightarrow>
           fst (Client_ConvertHTML E q w)
             = Inl (WrapError (data @ '' '' @ Error ErrTimedOut) ErrTimedOut)) \<and>
        (StatusCode resp = 501 \<longrightarrow>
           fst (Client_ConvertHTML E q w)
             = Inl (WrapError (data @ '' '' @ Error ErrNotImplemented) ErrNotImplemented)) \<and>
        (StatusCode resp \<notin> {201, 400, 401, 404, 408, 501} \<longrightarrow>
           fst (Client_ConvertHTML E q w)
             = Inl (WrapError (data @ '' '' @ Error ErrInternalError) ErrInternalError))"
  proof (rule impI)
    assume "Header_Get (Response.Header resp) ''Content-Encoding'' = ''gzip'' \<and>
      gzip_NewReader E (Response.Body resp) = Inr (data, readErr) \<or>
      Header_Get (Response.Header resp) ''Content-Encoding'' = ''deflate'' \<and>
      flate_NewReader E (Response.Body resp) = (data, readErr) \<or>
      Header_Get (Response.Header resp) ''Content-Encoding'' = [] \<and>
      Response.Body resp = (data, readErr)"
    then have rd: "ConvertHTML_reader E resp = Inr (data, readErr)"
      by (rule ConvertHTML_reader_decoded)
    note d = ConvertHTML_decoded [OF assms rd]
    show "(StatusCode resp = 201 \<and> readErr = None \<longrightarrow>
           fst (Client_ConvertHTML E q w)
             = Inr \<lparr>ID = Header_Get (Response.Header resp) ''X-Job-ID'', Data = data\<rparr>) \<and>
        (StatusCode resp = 201 \<and> readErr = Some re \<longrightarrow>
           fst (Client_ConvertHTML E q w)
             = Inl (ErrorString (''UniHTML server error '' @ Error re))) \<and>
        (StatusCode resp = 400 \<longrightarrow>
           fst (Client_ConvertHTML E q w)
             = Inl (WrapError (data @ '' '' @ Error ErrBadRequest) ErrBadRequest)) \<and>
        (StatusCode resp = 401 \<longrightarrow>
           fst (Client_ConvertHTML E q w)
             = Inl (WrapError (data @ '' '' @ Error ErrUnauthorized) ErrUnauthorized)) \<and>
        (StatusCode resp = 404 \<longrightarrow>
           fst (Client_ConvertHTML E q w)
             = Inl (WrapError (data @ '' '' @ Error ErrNotFound) ErrNotFound)) \<and>
        (StatusCode resp = 408 \<longrightarrow>
           fst (Client_ConvertHTML E q w)
             = Inl (WrapError (data @ '' '' @ Error ErrTimedOut) ErrTimedOut)) \<and>
        (StatusCode resp = 501 \<longrightarrow>
           fst (Client_ConvertHTML E q w)
             = Inl (WrapError (data @ '' '' @ Error ErrNotImplemented) ErrNotImplemented)) \<and>
        (StatusCode resp \<notin> {201, 400, 401, 404, 408, 501} \<longrightarrow>
           fst (Client_ConvertHTML E q w)
             = Inl (WrapError (data @ '' '' @ Error ErrInternalError) ErrInternalError))"
    proof (intro conjI impI)
      assume "StatusCode resp = 201 \<and> readErr = None"
      then show "fst (Client_ConvertHTML E q w)
            = Inr \<lparr>ID = Header_Get (Response.Header resp) ''X-Job-ID'', Data = data\<rparr>"
        by (intro d(2)) (simp_all add: ConvertHTML_httpErr_cases)
    next
      assume "StatusCode resp = 201 \<and> readErr = Some re"
      then show "fst (Client_ConvertHTML E q w)
            = Inl (ErrorString (''UniHTML server error '' @ Error re))"
        by (intro d(3)) (simp_all add: ConvertHTML_httpErr_cases)
    next
      assume "StatusCode resp = 400"
      then show "fst (Client_ConvertHTML E q w)
            = Inl (WrapError (data @ '' '' @ Error ErrBadRequest) ErrBadRequest)"
        by (intro d(1)) (simp add: ConvertHTML_httpErr_cases)
    next
      assume "StatusCode resp = 401"
      then show "fst (Client_ConvertHTML E q w)
            = Inl (WrapError (data @ '' '' @ Error ErrUnauthorized) ErrUnauthorized)"
        by (intro d(1)) (simp add: ConvertHTML_httpErr_cases)
    next
      assume "StatusCode resp = 404"
      then show "fst (Client_ConvertHTML E q w)
            = Inl (WrapError (data @ '' '' @ Error ErrNotFound) ErrNotFound)"
        by (intro d(1)) (simp add: ConvertHTML_httpErr_cases)
    next
      assume "StatusCode resp = 408"
      then show "fst (Client_ConvertHTML E q w)
            = Inl (WrapError (data @ '' '' @ Error ErrTimedOut) ErrTimedOut)"
        by (intro d(1)) (simp add: ConvertHTML_httpErr_cases)
    next
      assume "StatusCode resp = 501"
      then show "fst (Client_ConvertHTML E q w)
            = Inl (WrapError (data @ '' '' @ Error ErrNotImplemented) ErrNotImplemented)"
        by (intro d(1)) (simp add: ConvertHTML_httpErr_cases)
    next
      assume "StatusCode resp \<notin> {201, 400, 401, 404, 408, 501}"
      then show "fst (Client_ConvertHTML E q w)
            = Inl (WrapError (data @ '' '' @ Error ErrInternalError) ErrInternalError)"
        by (intro d(1)) (simp add: ConvertHTML_httpErr_cases)
    qed
  qed
next
  show "Header_Get (Response.Header resp) ''Content-Encoding'' = ''gzip'' \<and>
      gzip_NewReader E (Response.Body resp) = Inl ge \<longrightarrow>
        fst (Client_ConvertHTML E q w) = Inl ge"
    by (simp add: ConvertHTML_response [OF assms] ConvertHTML_reader_cases)
next
  show "Header_Get (Response.Header resp) ''Content-Encoding'' \<notin> {''gzip'', ''deflate'', []} \<longrightarrow>
        fst (Client_ConvertHTML E q w)
          = Inl (ErrorString (''unsupported Content-Encoding: ''
                   @ Header_Get (Response.Header resp) ''Content-Encoding'' @ '' header''))"
  proof (rule impI)
    assume "Header_Get (Response.Header resp) ''Content-Encoding'' \<notin> {''gzip'', ''deflate'', []}"
    then have "ConvertHTML_reader E resp
         = Inl (ErrorString (''unsupported Content-Encoding: ''
                  @ Header_Get (Response.Header resp) ''Content-Encoding'' @ '' header''))"
      by (rule ConvertHTML_reader_cases(4))
    then show "fst (Client_ConvertHTML E q w)
          = Inl (ErrorString (''unsupported Content-Encoding: ''
                   @ Header_Get (Response.Header resp) ''Content-Encoding'' @ '' header''))"
      by (simp add: ConvertHTML_response [OF assms])
  qed
qed

text \<open>
  Claim C4. For a valid query whose request is built and a response of the server, the
  body is decoded by the header Content-Encoding: with gzip the bytes are those of the
  gzip reader, with deflate those of the flate reader, and with an empty or absent header
  those of the body itself. When these bytes are \<open>payload\<close>, read without error, a status
  of success returns \<open>payload\<close> as \<open>Data\<close> and a status of error returns an error whose
  message starts with \<open>payload\<close>. Any other value of the header makes the call fail with
  the error "unsupported Content-Encoding", whatever the status.
\<close>

theorem ConvertHTML_content_encoding:
  assumes "Query_Validate q = None"
    and "Client_getGenerateRequest E (client w) q = Inr req"
    and "http_Do E (if Query.TimeoutDuration q \<noteq> 0
                    then (Client (client w))\<lparr>Timeout := Query.TimeoutDuration q\<rparr>
                    else Client (client w)) req = Inr resp"
  shows
    "(Header_Get (Response.Header resp) ''Content-Encoding'' = ''gzip'' \<and>
      gzip_NewReader E (Response.Body resp) = Inr (payload, None) \<or>
      Header_Get (Response.Header resp) ''Content-Encoding'' = ''deflate'' \<and>
      flate_NewReader E (Response.Body resp) = (payload, None) \<or>
      Header_Get (Response.Header resp) ''Content-Encoding'' = [] \<and>
      Response.Body resp = (payload, None)
      \<longrightarrow> fst (Client_ConvertHTML E q w)
           = (case ConvertHTML_httpErr (StatusCode resp) of
                None \<Rightarrow> Inr \<lparr>ID = Header_Get (Response.Header resp) ''X-Job-ID'',
                              Data = payload\<rparr>
              | Some he \<Rightarrow> Inl (WrapError (payload @ '' '' @ Error he) he))) \<and>
     (Header_Get (Response.Header resp) ''Content-Encoding'' \<notin> {''gzip'', ''deflate'', []}
      \<longrightarrow> fst (Client_ConvertHTML E q w)
           = Inl (ErrorString (''unsupported Content-Encoding: ''
                    @ Header_Get (Response.Header resp) ''Content-Encoding'' @ '' header'')))"
proof (intro conjI impI)
  assume "Header_Get (Response.Header resp) ''Content-Encoding'' = ''gzip'' \<and>
      gzip_NewReader E (Response.Body resp) = Inr (payload, None) \<or>
      Header_Get (Response.Header resp) ''Content-Encoding'' = ''deflate'' \<and>
      flate_NewReader E (Response.Body resp) = (payload, None) \<or>
      Header_Get (Response.Header resp) ''Content-Encoding'' = [] \<and>
      Response.Body resp = (payload, None)"
  then have "ConvertHTML_reader E resp = Inr (payload, None)"
    by (auto simp: ConvertHTML_reader_cases)
  then show "fst (Client_ConvertHTML E q w)
           = (case ConvertHTML_httpErr (StatusCode resp) of
                None \<Rightarrow> Inr \<lparr>ID = Header_Get (Response.Header resp) ''X-Job-ID'',
                              Data = payload\<rparr>
              | Some he \<Rightarrow> Inl (WrapError (payload @ '' '' @ Error he) he))"
    by (simp add: ConvertHTML_response [OF assms] split: option.splits)
next
  assume "Header_Get (Response.Header resp) ''Content-Encoding'' \<notin> {''gzip'', ''deflate'', []}"
  then have "ConvertHTML_reader E resp
         = Inl (ErrorString (''unsupported Content-Encoding: ''
                  @ Header_Get (Response.Header resp) ''Content-Encoding'' @ '' header''))"
    by (rule ConvertHTML_reader_cases(4))
  then show "fst (Client_ConvertHTML E q w)
           = Inl (ErrorString (''unsupported Content-Encoding: ''
                    @ Header_Get (Response.Header resp) ''Content-Encoding'' @ '' header''))"
    by (simp add: ConvertHTML_response [OF assms])
qed

lemma ConvertHTML_client: "client (snd (Client_ConvertHTML E q w)) = client w"
  by (simp add: Client_ConvertHTML_def Let_def io_ReadAll_def
      split: sum.splits option.splits prod.splits)

lemma ConvertHTML_sent:
  assumes "Query_Validate q = None"
    and "Client_getGenerateRequest E (client w) q = Inr req"
  shows "sent (snd (Client_ConvertHTML E q w))
         = sent w @ [(if Query.TimeoutDuration q \<noteq> 0
                      then (Client (client w))\<lparr>Timeout := Query.TimeoutDuration q\<rparr>
                      else Client (client w), req)]"
  using assms
  by (simp add: Client_ConvertHTML_def Let_def io_ReadAll_def
      split: sum.splits option.splits prod.splits)

lemma ConvertHTML_sent_unchanged:
  "Query_Validate q \<noteq> None \<or> (\<exists>e. Client_getGenerateRequest E (client w) q = Inl e)
     \<Longrightarrow> snd (Client_ConvertHTML E q w) = w"
  by (auto simp: Client_ConvertHTML_def split: option.splits)

text \<open>
  The result of a call whose query is valid and whose request is built: the exchange is
  run by \<open>http_Do\<close> on the copy of the client's \<open>http_Client\<close>, whose timeout is that of
  the query when it is not zero; an error of the exchange is returned, and a response is
  handled by the two switches.
\<close>

lemma ConvertHTML_exchange:
  assumes "Query_Validate q = None"
    and "Client_getGenerateRequest E (client w) q = Inr req"
  shows "fst (Client_ConvertHTML E q w) =
           (case http_Do E (if Query.TimeoutDuration q \<noteq> 0
                            then (Client (client w))\<lparr>Timeout := Query.TimeoutDuration q\<rparr>
                            else Client (client w)) req of
              Inl e \<Rightarrow> Inl e
            | Inr resp \<Rightarrow>
                (case ConvertHTML_reader E resp of
                   Inl e \<Rightarrow> Inl e
                 | Inr (data, readErr) \<Rightarrow>
                     (case (readErr, ConvertHTML_httpErr (StatusCode resp)) of
                        (Some re, None) \<Rightarrow>
                          Inl (ErrorString (''UniHTML server error '' @ Error re))
                      | (_, Some he) \<Rightarrow> Inl (WrapError (data @ '' '' @ Error he) he)
                      | (None, None) \<Rightarrow>
                          Inr \<lparr>ID = Header_Get (Response.Header resp) ''X-Job-ID'',
                               Data = data\<rparr>)))"
  using assms
  by (simp add: Client_ConvertHTML_def Let_def io_ReadAll_def
      split: sum.splits option.splits prod.splits)

text \<open>
  Claim C8. Below, \<open>outcome\<close> is what the call returns for the result of its exchange:
  the error of the exchange, or what the two switches make of the response.

  A conversion call leaves the client as it was. When the query is valid and the
  request is built, the call makes one exchange. If the timeout of the query is not
  zero, the exchange is run by \<open>http_Do\<close> with the \<open>http_Client\<close> of the client in which
  the timeout is replaced by that of the query, and the call returns the outcome of this
  exchange; if the timeout of the query is zero, the exchange is run with the
  \<open>http_Client\<close> of the client as it is. So for a client made by \<open>New\<close>, a call with a
  timeout \<open>d\<close> that is not zero followed by a call with timeout zero runs the first
  exchange with \<open>d\<close> and the second with the \<open>http_Client\<close> of \<open>New\<close>, whose timeout is
  30 seconds, and the second call returns the outcome of that exchange.
\<close>

theorem ConvertHTML_timeout_override:
  "let outcome = (\<lambda>x. case x of
          Inl e \<Rightarrow> Inl e
        | Inr resp \<Rightarrow>
            (case ConvertHTML_reader E resp of
               Inl e \<Rightarrow> Inl e
             | Inr (data, readErr) \<Rightarrow>
                 (case (readErr, ConvertHTML_httpErr (StatusCode resp)) of
                    (Some re, None) \<Rightarrow> Inl (ErrorString (''UniHTML server error '' @ Error re))
                  | (_, Some he) \<Rightarrow> Inl (WrapError (data @ '' '' @ Error he) he)
                  | (None, None) \<Rightarrow>
                      Inr \<lparr>ID = Header_Get (Response.Header resp) ''X-Job-ID'',
                           Data = data\<rparr>)))
   in
   client (snd (Client_ConvertHTML E q w)) = client w \<and>
   (Query_Validate q = None \<and> Client_getGenerateRequest E (client w) q = Inr req \<longrightarrow>
      sent (snd (Client_ConvertHTML E q w))
        = sent w @ [(if Query.TimeoutDuration q \<noteq> 0
                     then (Client (client w))\<lparr>Timeout := Query.TimeoutDuration q\<rparr>
                     else Client (client w), req)]) \<and>
   (Query_Validate q = None \<and> Client_getGenerateRequest E (client w) q = Inr req \<and>
    Query.TimeoutDuration q \<noteq> 0 \<longrightarrow>
      fst (Client_ConvertHTML E q w)
        = outcome (http_Do E ((Client (client w))\<lparr>Timeout := Query.TimeoutDuration q\<rparr>) req)) \<and>
   (Query_Validate q = None \<and> Client_getGenerateRequest E (client w) q = Inr req \<and>
    Query.TimeoutDuration q = 0 \<longrightarrow>
      fst (Client_ConvertHTML E q w) = outcome (http_Do E (Client (client w)) req)) \<and>
   (Query_Validate q = None \<and> Client_getGenerateRequest E (client w) q = Inr req \<and>
    Query_Validate q' = None \<and> Client_getGenerateRequest E (client w) q' = Inr req' \<and>
    Query.TimeoutDuration q \<noteq> 0 \<and> Query.TimeoutDuration q' = 0 \<and> client w = New opts \<longrightarrow>
      sent (snd (Client_ConvertHTML E q' (snd (Client_ConvertHTML E q w))))
        = sent w @ [((Client (New opts))\<lparr>Timeout := Query.TimeoutDuration q\<rparr>, req),
                    (Client (New opts), req')] \<and>
      Timeout (Client (New opts)) = 30 * Second \<and>
      fst (Client_ConvertHTML E q' (snd (Client_ConvertHTML E q w)))
        = outcome (http_Do E (Client (New opts)) req'))"
  unfolding Let_def
proof (intro conjI impI)
  show "client (snd (Client_ConvertHTML E q w)) = client w"
    by (rule ConvertHTML_client)
next
  assume "Query_Validate q = None \<and> Client_getGenerateRequest E (client w) q = Inr req"
  then show "sent (snd (Client_ConvertHTML E q w))
        = sent w @ [(if Query.TimeoutDuration q \<noteq> 0
                     then (Client (client w))\<lparr>Timeout := Query.TimeoutDuration q\<rparr>
                     else Client (client w), req)]"
    by (simp add: ConvertHTML_sent)
next
  assume a: "Query_Validate q = None \<and> Client_getGenerateRequest E (client w) q = Inr req \<and>
    Query.TimeoutDuration q \<noteq> 0"
  then have "Query_Validate q = None" "Client_getGenerateRequest E (client w) q = Inr req"
    by blast+
  from ConvertHTML_exchange [OF this] a
  show "fst (Client_ConvertHTML E q w)
        = (case http_Do E ((Client (client w))\<lparr>Timeout := Query.TimeoutDuration q\<rparr>) req of
             Inl e \<Rightarrow> Inl e
           | Inr resp \<Rightarrow>
               (case ConvertHTML_reader E resp of
                  Inl e \<Rightarrow> Inl e
                | Inr (data, readErr) \<Rightarrow>
                    (case (readErr, ConvertHTML_httpErr (StatusCode resp)) of
                       (Some re, None) \<Rightarrow>
                         Inl (ErrorString (''UniHTML server error '' @ Error re))
                     | (_, Some he) \<Rightarrow> Inl (WrapError (data @ '' '' @ Error he) he)
                     | (None, None) \<Rightarrow>
                         Inr \<lparr>ID = Header_Get (Response.Header resp) ''X-Job-ID'',
                              Data = data\<rparr>)))"
    by simp
next
  assume a: "Query_Validate q = None \<and> Client_getGenerateRequest E (client w) q = Inr req \<and>
    Query.TimeoutDuration q = 0"
  then have "Query_Validate q = None" "Client_getGenerateRequest E (client w) q = Inr req"
    by blast+
  from ConvertHTML_exchange [OF this] a
  show "fst (Client_ConvertHTML E q w)
        = (case http_Do E (Client (client w)) req of
             Inl e \<Rightarrow> Inl e
           | Inr resp \<Rightarrow>
               (case ConvertHTML_reader E resp of
                  Inl e \<Rightarrow> Inl e
                | Inr (data, readErr) \<Rightarrow>
                    (case (readErr, ConvertHTML_httpErr (StatusCode resp)) of
                       (Some re, None) \<Rightarrow>
                         Inl (ErrorString (''UniHTML server error '' @ Error re))
                     | (_, Some he) \<Rightarrow> Inl (WrapError (data @ '' '' @ Error he) he)
                     | (None, None) \<Rightarrow>
                         Inr \<lparr>ID = Header_Get (Response.Header resp) ''X-Job-ID'',
                              Data = data\<rparr>)))"
    by simp
next
  assume a: "Query_Validate q = None \<and> Client_getGenerateRequest E (client w) q = Inr req \<and>
    Query_Validate q' = None \<and> Client_getGenerateRequest E (client w) q' = Inr req' \<and>
    Query.TimeoutDuration q \<noteq> 0 \<and> Query.TimeoutDuration q' = 0 \<and> client w = New opts"
  let ?w = "snd (Client_ConvertHTML E q w)"
  from a have v: "Query_Validate q = None"
    and r: "Client_getGenerateRequest E (client w) q = Inr req"
    and v': "Query_Validate q' = None"
    and r': "Client_getGenerateRequest E (client w) q' = Inr req'"
    and t: "Query.TimeoutDuration q \<noteq> 0" and t': "Query.TimeoutDuration q' = 0"
    and n: "client w = New opts"
    by blast+
  have c: "client ?w = client w" by (rule ConvertHTML_client)
  have s1: "sent ?w = sent w @ [((Client (client w))\<lparr>Timeout := Query.TimeoutDuration q\<rparr>, req)]"
    using ConvertHTML_sent [OF v r] t by simp
  have r'': "Client_getGenerateRequest E (client ?w) q' = Inr req'"
    using r' c by simp
  have s2: "sent (snd (Client_ConvertHTML E q' ?w)) = sent ?w @ [(Client (client ?w), req')]"
    using ConvertHTML_sent [OF v' r''] t' by simp
  show "sent (snd (Client_ConvertHTML E q' (snd (Client_ConvertHTML E q w))))
        = sent w @ [((Client (New opts))\<lparr>Timeout := Query.TimeoutDuration q\<rparr>, req),
                    (Client (New opts), req')]"
    using s1 s2 c n by simp
  from ConvertHTML_exchange [OF v' r''] t' c n
  show "fst (Client_ConvertHTML E q' (snd (Client_ConvertHTML E q w)))
        = (case http_Do E (Client (New opts)) req' of
             Inl e \<Rightarrow> Inl e
           | Inr resp \<Rightarrow>
               (case ConvertHTML_reader E resp of
                  Inl e \<Rightarrow> Inl e
                | Inr (data, readErr) \<Rightarrow>
                    (case (readErr, ConvertHTML_httpErr (StatusCode resp)) of
                       (Some re, None) \<Rightarrow>
                         Inl (ErrorString (''UniHTML server error '' @ Error re))
                     | (_, Some he) \<Rightarrow> Inl (WrapError (data @ '' '' @ Error he) he)
                     | (None, None) \<Rightarrow>
                         Inr \<lparr>ID = Header_Get (Response.Header resp) ''X-Job-ID'',
                              Data = data\<rparr>)))"
    by simp
next
  show "Timeout (Client (New opts)) = 30 * Second"
    by (simp add: New_def Let_def)
qed

section \<open>The conversion call on an example\<close>

text \<open>
  An example for the conversion call: a client made by \<open>New\<close> from empty options, a query
  for a web page with a timeout \<open>t\<close>, and an environment in which the request is encoded
  and built without error.
\<close>

lemma Itoa_8080: "Itoa 8080 = ''8080''"
  by (simp add: Itoa_def)

lemma example_Addr:
  "Options_Addr (Options (New \<lparr>HTTPS = False, Hostname = [], Port = 0, DefaultTimeout = 0,
                                Prefix = []\<rparr>)) = ''http://127.0.0.1:8080''"
  by (simp add: Options_Addr_def New_def Let_def Itoa_8080)

lemma example_valid:
  "Query_Validate (zero_Query\<lparr>Query.Method := ''web'', Query.URL := ''http://example.com'',
                              Query.TimeoutDuration := t\<rparr>) = None"
  by (simp add: Query_Validate_def zero_Query_def zero_Query_params)

lemma example_request:
  "Client_getGenerateRequest
     \<lparr>json_Encode = (\<lambda>d. Inr ''{}''),
      http_NewRequest = (\<lambda>m u b. Inr \<lparr>Request.Method = m, Request.URL = u,
                                        Request.Header = Map.empty, Request.Body = b\<rparr>),
      http_Do = D, gzip_NewReader = G, flate_NewReader = F\<rparr>
     (New \<lparr>HTTPS = False, Hostname = [], Port = 0, DefaultTimeout = 0, Prefix = []\<rparr>)
     (zero_Query\<lparr>Query.Method := ''web'', Query.URL := ''http://example.com'',
                  Query.TimeoutDuration := t\<rparr>)
   = Inr \<lparr>Request.Method = ''POST'', Request.URL = ''http://127.0.0.1:8080/v1/pdf'',
          Request.Header = [''Content-Type'' \<mapsto> ''application/json'',
                            ''Accept-Encoding'' \<mapsto> ''deflate, gzip;q=1.0, *;q=0.5''],
          Request.Body = ''{}''\<rparr>"
  by (simp add: Client_getGenerateRequest_def Let_def example_Addr Header_Set_def zero_Query_def)

text \<open>
  Claim C2, as stated, maps the status of every response: 201 to success, 400 to an
  error of kind \<open>ErrBadRequest\<close> that carries the body. Here are three responses for
  which the call returns something else. The first has status 201 and a deflate body
  whose reading ends in an error: the call fails. The second has status 400 and a gzip
  body on which the gzip reader does not open, the third has status 400 and the unknown
  encoding \<open>br\<close>: the error returned is that of the decoding, and neither wraps
  \<open>ErrBadRequest\<close> nor carries the body.
\<close>

theorem ConvertHTML_status_mapping_counterexample:
  "let E = (\<lambda>h s. \<lparr>json_Encode = (\<lambda>d. Inr ''{}''),
                  http_NewRequest = (\<lambda>m u b. Inr \<lparr>Request.Method = m, Request.URL = u,
                                          Request.Header = Map.empty, Request.Body = b\<rparr>),
                  http_Do = (\<lambda>hc r. Inr \<lparr>StatusCode = s, Response.Header = h,
                                            Response.Body = (''body'', None)\<rparr>),
                  gzip_NewReader = (\<lambda>r. Inl (ErrorString ''gzip: invalid header'')),
                  flate_NewReader = (\<lambda>r. (''te'', Some (ErrorString ''unexpected EOF'')))\<rparr>);
       q = zero_Query\<lparr>Query.Method := ''web'', Query.URL := ''http://example.com'',
                      Query.TimeoutDuration := 0\<rparr>;
       w = \<lparr>client = New \<lparr>HTTPS = False, Hostname = [], Port = 0, DefaultTimeout = 0,
                           Prefix = []\<rparr>, sent = []\<rparr>
   in fst (Client_ConvertHTML (E [''Content-Encoding'' \<mapsto> ''deflate''] 201) q w)
        = Inl (ErrorString ''UniHTML server error unexpected EOF'') \<and>
      fst (Client_ConvertHTML (E [''Content-Encoding'' \<mapsto> ''gzip''] 400) q w)
        = Inl (ErrorString ''gzip: invalid header'') \<and>
      fst (Client_ConvertHTML (E [''Content-Encoding'' \<mapsto> ''br''] 400) q w)
        = Inl (ErrorString ''unsupported Content-Encoding: br header'')"
proof -
  let ?resp = "\<lambda>h s. \<lparr>StatusCode = s, Response.Header = h, Response.Body = (''body'', None)\<rparr>"
  let ?E = "\<lambda>h s. \<lparr>json_Encode = (\<lambda>d. Inr ''{}''),
                  http_NewRequest = (\<lambda>m u b. Inr \<lparr>Request.Method = m, Request.URL = u,
                                          Request.Header = Map.empty, Request.Body = b\<rparr>),
                  http_Do = (\<lambda>hc r. Inr (?resp h s)),
                  gzip_NewReader = (\<lambda>r. Inl (ErrorString ''gzip: invalid header'')),
                  flate_NewReader = (\<lambda>r. (''te'', Some (ErrorString ''unexpected EOF'')))\<rparr>"
  let ?q = "zero_Query\<lparr>Query.Method := ''web'', Query.URL := ''http://example.com'',
                       Query.TimeoutDuration := 0\<rparr>"
  let ?w = "\<lparr>client = New \<lparr>HTTPS = False, Hostname = [], Port = 0, DefaultTimeout = 0,
                            Prefix = []\<rparr>, sent = []\<rparr>"
  have v: "Query_Validate ?q = None"
    by (rule example_valid)
  have r: "Client_getGenerateRequest (?E h s) (client ?w) ?q
           = Inr \<lparr>Request.Method = ''POST'', Request.URL = ''http://127.0.0.1:8080/v1/pdf'',
                  Request.Header = [''Content-Type'' \<mapsto> ''application/json'',
                                    ''Accept-Encoding'' \<mapsto> ''deflate, gzip;q=1.0, *;q=0.5''],
                  Request.Body = ''{}''\<rparr>" for h s
    by (simp add: example_request)
  have d: "http_Do (?E h s) (if Query.TimeoutDuration ?q \<noteq> 0
                    then (Client (client ?w))\<lparr>Timeout := Query.TimeoutDuration ?q\<rparr>
                    else Client (client ?w)) rq = Inr (?resp h s)" for h s rq
    by simp
  show ?thesis
    by (simp add: Let_def ConvertHTML_response [OF v r d] ConvertHTML_reader_def Header_Get_def
        ConvertHTML_httpErr_cases)
qed

text \<open>
  A server whose gzip body decodes to \<open>text\<close>, with each of the seven kinds of status;
  a deflate body whose reading ends in an error after \<open>te\<close>, with the status 201 and
  the status 404; a gzip body on which the gzip reader does not open; and the unknown
  encoding \<open>br\<close>.
\<close>

theorem ConvertHTML_status_mapping_witness:
  "let E = (\<lambda>g h s. \<lparr>json_Encode = (\<lambda>d. Inr ''{}''),
                  http_NewRequest = (\<lambda>m u b. Inr \<lparr>Request.Method = m, Request.URL = u,
                                          Request.Header = Map.empty, Request.Body = b\<rparr>),
                  http_Do = (\<lambda>hc r. Inr \<lparr>StatusCode = s, Response.Header = h,
                                            Response.Body = (''compressed'', None)\<rparr>),
                  gzip_NewReader = (\<lambda>r. g),
                  flate_NewReader = (\<lambda>r. (''te'', Some (ErrorString ''unexpected EOF'')))\<rparr>);
       gz = [''Content-Encoding'' \<mapsto> ''gzip'', ''X-Job-ID'' \<mapsto> ''job-1''];
       q = zero_Query\<lparr>Query.Method := ''web'', Query.URL := ''http://example.com'',
                      Query.TimeoutDuration := 0\<rparr>;
       w = \<lparr>client = New \<lparr>HTTPS = False, Hostname = [], Port = 0, DefaultTimeout = 0,
                           Prefix = []\<rparr>, sent = []\<rparr>
   in fst (Client_ConvertHTML (E (Inr (''text'', None)) gz 201) q w)
        = Inr \<lparr>ID = ''job-1'', Data = ''text''\<rparr> \<and>
      fst (Client_ConvertHTML (E (Inr (''text'', None)) gz 400) q w)
        = Inl (WrapError ''text bad request'' ErrBadRequest) \<and>
      fst (Client_ConvertHTML (E (Inr (''text'', None)) gz 401) q w)
        = Inl (WrapError ''text unauthorized'' ErrUnauthorized) \<and>
      fst (Client_ConvertHTML (E (Inr (''text'', None)) gz 404) q w)
        = Inl (WrapError ''text not found'' ErrNotFound) \<and>
      fst (Client_ConvertHTML (E (Inr (''text'', None)) gz 408) q w)
        = Inl (WrapError ''text request timed out'' ErrTimedOut) \<and>
      fst (Client_ConvertHTML (E (Inr (''text'', None)) gz 501) q w)
        = Inl (WrapError ''text not implemented'' ErrNotImplemented) \<and>
      fst (Client_ConvertHTML (E (Inr (''text'', None)) gz 500) q w)
        = Inl (WrapError ''text internal server error'' ErrInternalError) \<and>
      fst (Client_ConvertHTML
             (E (Inr (''text'', None)) [''Content-Encoding'' \<mapsto> ''deflate''] 201) q w)
        = Inl (ErrorString ''UniHTML server error unexpected EOF'') \<and>
      fst (Client_ConvertHTML
             (E (Inr (''text'', None)) [''Content-Encoding'' \<mapsto> ''deflate''] 404) q w)
        = Inl (WrapError ''te not found'' ErrNotFound) \<and>
      fst (Client_ConvertHTML (E (Inl (ErrorString ''gzip: invalid header'')) gz 400) q w)
        = Inl (ErrorString ''gzip: invalid header'') \<and>
      fst (Client_ConvertHTML
             (E (Inr (''text'', None)) [''Content-Encoding'' \<mapsto> ''br''] 400) q w)
        = Inl (ErrorString ''unsupported Content-Encoding: br header'')"
proof -
  let ?resp = "\<lambda>h s. \<lparr>StatusCode = s, Response.Header = h,
                       Response.Body = (''compressed'', None)\<rparr>"
  let ?E = "\<lambda>g h s. \<lparr>json_Encode = (\<lambda>d. Inr ''{}''),
                  http_NewRequest = (\<lambda>m u b. Inr \<lparr>Request.Method = m, Request.URL = u,
                                          Request.Header = Map.empty, Request.Body = b\<rparr>),
                  http_Do = (\<lambda>hc r. Inr (?resp h s)),
                  gzip_NewReader = (\<lambda>r. g),
                  flate_NewReader = (\<lambda>r. (''te'', Some (ErrorString ''unexpected EOF'')))\<rparr>"
  let ?gz = "[''Content-Encoding'' \<mapsto> ''gzip'', ''X-Job-ID'' \<mapsto> ''job-1'']"
  let ?fl = "[''Content-Encoding'' \<mapsto> ''deflate'']"
  let ?br = "[''Content-Encoding'' \<mapsto> ''br'']"
  let ?ok = "Inr (''text'', None) :: error + Reader"
  let ?bad = "Inl (ErrorString ''gzip: invalid header'') :: error + Reader"
  let ?q = "zero_Query\<lparr>Query.Method := ''web'', Query.URL := ''http://example.com'',
                       Query.TimeoutDuration := 0\<rparr>"
  let ?w = "\<lparr>client = New \<lparr>HTTPS = False, Hostname = [], Port = 0, DefaultTimeout = 0,
                            Prefix = []\<rparr>, sent = []\<rparr>"
  have v: "Query_Validate ?q = None"
    by (rule example_valid)
  have r: "Client_getGenerateRequest (?E g h s) (client ?w) ?q
           = Inr \<lparr>Request.Method = ''POST'', Request.URL = ''http://127.0.0.1:8080/v1/pdf'',
                  Request.Header = [''Content-Type'' \<mapsto> ''application/json'',
                                    ''Accept-Encoding'' \<mapsto> ''deflate, gzip;q=1.0, *;q=0.5''],
                  Request.Body = ''{}''\<rparr>" for g h s
    by (simp add: example_request)
  have d: "http_Do (?E g h s) (if Query.TimeoutDuration ?q \<noteq> 0
                    then (Client (client ?w))\<lparr>Timeout := Query.TimeoutDuration ?q\<rparr>
                    else Client (client ?w)) rq = Inr (?resp h s)" for g h s rq
    by simp
  show ?thesis
    using ConvertHTML_status_mapping
        [where E = "?E ?ok ?gz 201" and q = ?q and w = ?w and resp = "?resp ?gz 201"
           and data = "''text''" and readErr = None,
         OF v r d]
      ConvertHTML_status_mapping
        [where E = "?E ?ok ?gz 400" and q = ?q and w = ?w and resp = "?resp ?gz 400"
           and data = "''text''" and readErr = None,
         OF v r d]
      ConvertHTML_status_mapping
        [where E = "?E ?ok ?gz 401" and q = ?q and w = ?w and resp = "?resp ?gz 401"
           and data = "''text''" and readErr = None,
         OF v r d]
      ConvertHTML_status_mapping
        [where E = "?E ?ok ?gz 404" and q = ?q and w = ?w and resp = "?resp ?gz 404"
           and data = "''text''" and readErr = None,
         OF v r d]
      ConvertHTML_status_mapping
        [where E = "?E ?ok ?gz 408" and q = ?q and w = ?w and resp = "?resp ?gz 408"
           and data = "''text''" and readErr = None,
         OF v r d]
      ConvertHTML_status_mapping
        [where E = "?E ?ok ?gz 501" and q = ?q and w = ?w and resp = "?resp ?gz 501"
           and data = "''text''" and readErr = None,
         OF v r d]
      ConvertHTML_status_mapping
        [where E = "?E ?ok ?gz 500" and q = ?q and w = ?w and resp = "?resp ?gz 500"
           and data = "''text''" and readErr = None,
         OF v r d]
      ConvertHTML_status_mapping
        [where E = "?E ?ok ?fl 201" and q = ?q and w = ?w and resp = "?resp ?fl 201"
           and data = "''te''" and readErr = "Some (ErrorString ''unexpected EOF'')"
           and re = "ErrorString ''unexpected EOF''",
         OF v r d]
      ConvertHTML_status_mapping
        [where E = "?E ?ok ?fl 404" and q = ?q and w = ?w and resp = "?resp ?fl 404"
           and data = "''te''" and readErr = "Some (ErrorString ''unexpected EOF'')"
           and re = "ErrorString ''unexpected EOF''",
         OF v r d]
      ConvertHTML_status_mapping
        [where E = "?E ?bad ?gz 400" and q = ?q and w = ?w and resp = "?resp ?gz 400"
           and ge = "ErrorString ''gzip: invalid header''",
         OF v r d]
      ConvertHTML_status_mapping
        [where E = "?E ?ok ?br 400" and q = ?q and w = ?w and resp = "?resp ?br 400",
         OF v r d]
    by (simp add: Let_def Header_Get_def)
qed

text \<open>
  Responses with gzip, deflate, no encoding and the unknown encoding \<open>br\<close>, the last with a
  status of success and with a status of error.
\<close>

theorem ConvertHTML_content_encoding_witness:
  "let E = (\<lambda>h s. \<lparr>json_Encode = (\<lambda>d. Inr ''{}''),
                  http_NewRequest = (\<lambda>m u b. Inr \<lparr>Request.Method = m, Request.URL = u,
                                          Request.Header = Map.empty, Request.Body = b\<rparr>),
                  http_Do = (\<lambda>hc r. Inr \<lparr>StatusCode = s, Response.Header = h,
                                            Response.Body = (''body'', None)\<rparr>),
                  gzip_NewReader = (\<lambda>r. Inr (''gunzipped'', None)),
                  flate_NewReader = (\<lambda>r. (''inflated'', None))\<rparr>);
       q = zero_Query\<lparr>Query.Method := ''web'', Query.URL := ''http://example.com'',
                      Query.TimeoutDuration := 0\<rparr>;
       w = \<lparr>client = New \<lparr>HTTPS = False, Hostname = [], Port = 0, DefaultTimeout = 0,
                           Prefix = []\<rparr>, sent = []\<rparr>
   in fst (Client_ConvertHTML (E [''Content-Encoding'' \<mapsto> ''gzip''] 201) q w)
        = Inr \<lparr>ID = [], Data = ''gunzipped''\<rparr> \<and>
      fst (Client_ConvertHTML (E [''Content-Encoding'' \<mapsto> ''deflate''] 404) q w)
        = Inl (WrapError ''inflated not found'' ErrNotFound) \<and>
      fst (Client_ConvertHTML (E [''X-Job-ID'' \<mapsto> ''job-1''] 201) q w)
        = Inr \<lparr>ID = ''job-1'', Data = ''body''\<rparr> \<and>
      fst (Client_ConvertHTML (E [''Content-Encoding'' \<mapsto> ''br''] 201) q w)
        = Inl (ErrorString ''unsupported Content-Encoding: br header'') \<and>
      fst (Client_ConvertHTML (E [''Content-Encoding'' \<mapsto> ''br''] 404) q w)
        = Inl (ErrorString ''unsupported Content-Encoding: br header'')"
proof -
  let ?resp = "\<lambda>h s. \<lparr>StatusCode = s, Response.Header = h, Response.Body = (''body'', None)\<rparr>"
  let ?E = "\<lambda>h s. \<lparr>json_Encode = (\<lambda>d. Inr ''{}''),
                  http_NewRequest = (\<lambda>m u b. Inr \<lparr>Request.Method = m, Request.URL = u,
                                          Request.Header = Map.empty, Request.Body = b\<rparr>),
                  http_Do = (\<lambda>hc r. Inr (?resp h s)),
                  gzip_NewReader = (\<lambda>r. Inr (''gunzipped'', None)),
                  flate_NewReader = (\<lambda>r. (''inflated'', None))\<rparr>"
  let ?q = "zero_Query\<lparr>Query.Method := ''web'', Query.URL := ''http://example.com'',
                       Query.TimeoutDuration := 0\<rparr>"
  let ?w = "\<lparr>client = New \<lparr>HTTPS = False, Hostname = [], Port = 0, DefaultTimeout = 0,
                            Prefix = []\<rparr>, sent = []\<rparr>"
  have v: "Query_Validate ?q = None"
    by (rule example_valid)
  have r: "Client_getGenerateRequest (?E h s) (client ?w) ?q
           = Inr \<lparr>Request.Method = ''POST'', Request.URL = ''http://127.0.0.1:8080/v1/pdf'',
                  Request.Header = [''Content-Type'' \<mapsto> ''application/json'',
                                    ''Accept-Encoding'' \<mapsto> ''deflate, gzip;q=1.0, *;q=0.5''],
                  Request.Body = ''{}''\<rparr>" for h s
    by (simp add: example_request)
  have d: "http_Do (?E h s) (if Query.TimeoutDuration ?q \<noteq> 0
                    then (Client (client ?w))\<lparr>Timeout := Query.TimeoutDuration ?q\<rparr>
                    else Client (client ?w)) rq = Inr (?resp h s)" for h s rq
    by simp
  show ?thesis
    using ConvertHTML_content_encoding
        [where E = "?E [''Content-Encoding'' \<mapsto> ''gzip''] 201" and q = ?q and w = ?w
           and resp = "?resp [''Content-Encoding'' \<mapsto> ''gzip''] 201" and payload = "''gunzipped''",
         OF v r d, THEN conjunct1]
      ConvertHTML_content_encoding
        [where E = "?E [''Content-Encoding'' \<mapsto> ''deflate''] 404" and q = ?q and w = ?w
           and resp = "?resp [''Content-Encoding'' \<mapsto> ''deflate''] 404" and payload = "''inflated''",
         OF v r d, THEN conjunct1]
      ConvertHTML_content_encoding
        [where E = "?E [''X-Job-ID'' \<mapsto> ''job-1''] 201" and q = ?q and w = ?w
           and resp = "?resp [''X-Job-ID'' \<mapsto> ''job-1''] 201" and payload = "''body''",
         OF v r d, THEN conjunct1]
      ConvertHTML_content_encoding
        [where E = "?E [''Content-Encoding'' \<mapsto> ''br''] 201" and q = ?q and w = ?w
           and resp = "?resp [''Content-Encoding'' \<mapsto> ''br''] 201",
         OF v r d, THEN conjunct2]
      ConvertHTML_content_encoding
        [where E = "?E [''Content-Encoding'' \<mapsto> ''br''] 404" and q = ?q and w = ?w
           and resp = "?resp [''Content-Encoding'' \<mapsto> ''br''] 404",
         OF v r d, THEN conjunct2]
    by (simp add: Let_def Header_Get_def ConvertHTML_httpErr_cases)
qed

text \<open>
  Two calls on a client made by \<open>New\<close>, to a server whose exchange fails when the timeout
  of the \<open>http_Client\<close> that runs it is below 10 seconds. The first call has a timeout of
  5 seconds and fails; the second has none, runs with the 30 seconds of the client and
  succeeds.
\<close>

theorem ConvertHTML_timeout_override_witness:
  "let E = \<lparr>json_Encode = (\<lambda>d. Inr ''{}''),
            http_NewRequest = (\<lambda>m u b. Inr \<lparr>Request.Method = m, Request.URL = u,
                                    Request.Header = Map.empty, Request.Body = b\<rparr>),
            http_Do = (\<lambda>hc r. if Timeout hc < 10 * Second
                                then Inl (ErrorString ''context deadline exceeded'')
                                else Inr \<lparr>StatusCode = 201,
                                          Response.Header = [''X-Job-ID'' \<mapsto> ''job-1''],
                                          Response.Body = (''text'', None)\<rparr>),
            gzip_NewReader = Inr, flate_NewReader = (\<lambda>r. r)\<rparr>;
       q = zero_Query\<lparr>Query.Method := ''web'', Query.URL := ''http://example.com'',
                      Query.TimeoutDuration := 5 * Second\<rparr>;
       q' = zero_Query\<lparr>Query.Method := ''web'', Query.URL := ''http://example.com'',
                       Query.TimeoutDuration := 0\<rparr>;
       w = \<lparr>client = New \<lparr>HTTPS = False, Hostname = [], Port = 0, DefaultTimeout = 0,
                           Prefix = []\<rparr>, sent = []\<rparr>
   in client (snd (Client_ConvertHTML E q w)) = client w \<and>
      map (\<lambda>x. Timeout (fst x)) (sent (snd (Client_ConvertHTML E q w))) = [5000000000] \<and>
      fst (Client_ConvertHTML E q w) = Inl (ErrorString ''context deadline exceeded'') \<and>
      fst (Client_ConvertHTML E q' w) = Inr \<lparr>ID = ''job-1'', Data = ''text''\<rparr> \<and>
      map (\<lambda>x. Timeout (fst x))
        (sent (snd (Client_ConvertHTML E q' (snd (Client_ConvertHTML E q w)))))
        = [5000000000, 30000000000] \<and>
      fst (Client_ConvertHTML E q' (snd (Client_ConvertHTML E q w)))
        = Inr \<lparr>ID = ''job-1'', Data = ''text''\<rparr>"
proof -
  let ?resp = "\<lparr>StatusCode = 201, Response.Header = [''X-Job-ID'' \<mapsto> ''job-1''],
                 Response.Body = (''text'', None)\<rparr>"
  let ?E = "\<lparr>json_Encode = (\<lambda>d. Inr ''{}''),
            http_NewRequest = (\<lambda>m u b. Inr \<lparr>Request.Method = m, Request.URL = u,
                                    Request.Header = Map.empty, Request.Body = b\<rparr>),
            http_Do = (\<lambda>hc r. if Timeout hc < 10 * Second
                                then Inl (ErrorString ''context deadline exceeded'')
                                else Inr ?resp),
            gzip_NewReader = Inr, flate_NewReader = (\<lambda>r. r)\<rparr>"
  let ?q = "\<lambda>t. zero_Query\<lparr>Query.Method := ''web'', Query.URL := ''http://example.com'',
                           Query.TimeoutDuration := t\<rparr>"
  let ?opts = "\<lparr>HTTPS = False, Hostname = [], Port = 0, DefaultTimeout = 0, Prefix = []\<rparr>"
  let ?w = "\<lparr>client = New ?opts, sent = []\<rparr>"
  let ?req = "\<lparr>Request.Method = ''POST'', Request.URL = ''http://127.0.0.1:8080/v1/pdf'',
                Request.Header = [''Content-Type'' \<mapsto> ''application/json'',
                                  ''Accept-Encoding'' \<mapsto> ''deflate, gzip;q=1.0, *;q=0.5''],
                Request.Body = ''{}''\<rparr>"
  have v: "Query_Validate (?q t) = None" for t
    by (rule example_valid)
  have r: "Client_getGenerateRequest ?E (client ?w) (?q t) = Inr ?req" for t
    by (simp add: example_request)
  have t30: "Timeout (Client (New ?opts)) = 30 * Second"
    by (simp add: New_def Let_def)
  show ?thesis
    using ConvertHTML_timeout_override
        [where E = ?E and q = "?q (5 * Second)" and w = ?w and req = ?req and q' = "?q 0"
           and req' = ?req and opts = ?opts]
      ConvertHTML_timeout_override
        [where E = ?E and q = "?q 0" and w = ?w and req = ?req] v r
    by (simp add: Let_def Second_def Millisecond_def t30 ConvertHTML_reader_def Header_Get_def
        ConvertHTML_httpErr_cases)
qed

end
